theory Spec2Isabelle
  imports Main
begin

section \<open>Values shared by the backend modules\<close>

text \<open>
  Python \<open>str\<close> values are modelled as \<open>string\<close>; a \<open>char\<close> stands for one
  code point. A naive \<open>datetime\<close> is the number of seconds it shows since
  1970-01-01 00:00:00 on its own wall clock, a \<open>date\<close> its ordinal day.
\<close>

type_synonym datetime = int
type_synonym date = int

text \<open>\<open>str.isspace\<close> on the code points below 256, and \<open>str.strip()\<close>.\<close>

definition py_isspace :: "char \<Rightarrow> bool" where
  "py_isspace c =
     (let n = (of_char c :: nat)
      in (9 \<le> n \<and> n \<le> 13) \<or> (28 \<le> n \<and> n \<le> 32) \<or> n = 133 \<or> n = 160)"

definition py_strip :: "string \<Rightarrow> string" where
  "py_strip s = rev (dropWhile py_isspace (rev (dropWhile py_isspace s)))"

section \<open>errors.py: exceptions and the exception handlers\<close>

text \<open>
  The \<open>detail\<close> of an \<open>HTTPException\<close> is either a string or a dict whose values
  are strings or (under \<open>"details"\<close>) a field map.
\<close>

datatype dval = DStr string | DMap "(string \<times> string) list"

datatype detail = DetailStr string | DetailDict "(string \<times> dval) list"

text \<open>
  The exceptions that cross the functions of the backend. \<open>ExpiredSignatureError\<close>
  and \<open>JWTClaimsError\<close> are the two subclasses of \<open>JWTError\<close>; \<open>IntegrityError\<close>
  is what a commit raises on a violated constraint and \<open>DataError\<close> what a statement
  raises on a parameter the database refuses; \<open>OtherException\<close> is any other
  Python exception, named by its class.
\<close>

datatype exn =
    HTTPException nat detail
  | JWTError
  | ExpiredSignatureError
  | JWTClaimsError
  | IntegrityError
  | DataError
  | OtherException string

record JSONResponse =
  status_code :: nat
  content :: "(string \<times> dval) list"

definition dict_get :: "('k \<times> 'v) list \<Rightarrow> 'k \<Rightarrow> 'v option" where
  "dict_get d k = map_of d k"

definition dval_truthy :: "dval \<Rightarrow> bool" where
  "dval_truthy v = (case v of DStr s \<Rightarrow> s \<noteq> [] | DMap m \<Rightarrow> m \<noteq> [])"

definition get_error_code_from_status :: "nat \<Rightarrow> string" where
  "get_error_code_from_status code =
     (case dict_get
        [(400, ''VALIDATION_ERROR''), (401, ''UNAUTHORIZED''), (403, ''FORBIDDEN''),
         (404, ''NOT_FOUND''), (409, ''EMAIL_EXISTS''), (422, ''VALIDATION_ERROR''),
         (500, ''SERVER_ERROR'')] code
      of Some c \<Rightarrow> c | None \<Rightarrow> ''ERROR'')"

definition http_exception_handler :: "nat \<Rightarrow> detail \<Rightarrow> JSONResponse" where
  "http_exception_handler status d =
     (let (error_code, message, details) =
            (case d of
               DetailDict m \<Rightarrow>
                 (case dict_get m ''error'' of Some c \<Rightarrow> c | None \<Rightarrow> DStr ''ERROR'',
                  case dict_get m ''message'' of Some c \<Rightarrow> c | None \<Rightarrow> DStr ''An error occurred'',
                  dict_get m ''details'')
             | DetailStr s \<Rightarrow>
                 (DStr (get_error_code_from_status status),
                  DStr (if s \<noteq> [] then s else ''An error occurred''),
                  None));
          response = [(''error'', error_code), (''message'', message)];
          response' = (case details of
                         Some v \<Rightarrow> if dval_truthy v then response @ [(''details'', v)] else response
                       | None \<Rightarrow> response)
      in \<lparr>status_code = status, content = response'\<rparr>)"

definition generic_exception_handler :: "exn \<Rightarrow> JSONResponse" where
  "generic_exception_handler exc =
     \<lparr>status_code = 500,
      content = [(''error'', DStr ''SERVER_ERROR''), (''message'', DStr ''Something went wrong'')]\<rparr>"

text \<open>The handler that FastAPI picks for a raised exception.\<close>

definition handle_exception :: "exn \<Rightarrow> JSONResponse" where
  "handle_exception exc =
     (case exc of
        HTTPException status d \<Rightarrow> http_exception_handler status d
      | _ \<Rightarrow> generic_exception_handler exc)"

definition raise_unauthorized :: "string \<Rightarrow> exn" where
  "raise_unauthorized message =
     HTTPException 401 (DetailDict [(''error'', DStr ''UNAUTHORIZED''), (''message'', DStr message)])"

definition raise_forbidden :: "string \<Rightarrow> exn" where
  "raise_forbidden message =
     HTTPException 403 (DetailDict [(''error'', DStr ''FORBIDDEN''), (''message'', DStr message)])"

definition raise_not_found :: "string \<Rightarrow> exn" where
  "raise_not_found message =
     HTTPException 404 (DetailDict [(''error'', DStr ''NOT_FOUND''), (''message'', DStr message)])"

definition raise_conflict :: "string \<Rightarrow> exn" where
  "raise_conflict message =
     HTTPException 409 (DetailDict [(''error'', DStr ''EMAIL_EXISTS''), (''message'', DStr message)])"

definition raise_bad_request :: "string \<Rightarrow> (string \<times> string) list option \<Rightarrow> exn" where
  "raise_bad_request message details =
     (let d = [(''error'', DStr ''VALIDATION_ERROR''), (''message'', DStr message)];
          d' = (case details of
                  Some m \<Rightarrow> if m \<noteq> [] then d @ [(''details'', DMap m)] else d
                | None \<Rightarrow> d)
      in HTTPException 400 (DetailDict d'))"

section \<open>config.py\<close>

record Settings =
  better_auth_secret :: string
  jwt_algorithm :: string
  jwt_expiration_hours :: int

definition secret_key :: "Settings \<Rightarrow> string" where
  "secret_key settings = better_auth_secret settings"

section \<open>auth/jwt.py\<close>

text \<open>The values of a decoded token payload, and Python's truth value of one.\<close>

datatype jval = JNull | JBool bool | JInt int | JStr string | JList "jval list"

type_synonym claims = "(string \<times> jval) list"

definition truthy :: "jval \<Rightarrow> bool" where
  "truthy v =
     (case v of JNull \<Rightarrow> False | JBool b \<Rightarrow> b | JInt i \<Rightarrow> i \<noteq> 0
      | JStr s \<Rightarrow> s \<noteq> [] | JList vs \<Rightarrow> vs \<noteq> [])"

text \<open>
  The two functions of \<open>jose.jwt\<close> that the module calls are arguments of the model:
  \<open>encode payload key algorithm\<close> and \<open>decode token key algorithms now\<close>, where \<open>now\<close>
  is the clock that \<open>decode\<close> reads (seconds since the epoch, UTC). Each returns
  its result or the exception it raises.
\<close>

record jwt =
  encode :: "claims \<Rightarrow> string \<Rightarrow> string \<Rightarrow> exn + string"
  decode :: "string \<Rightarrow> string \<Rightarrow> string list \<Rightarrow> int \<Rightarrow> exn + claims"

text \<open>\<open>isinstance(e, JWTError)\<close>: what \<open>except JWTError\<close> catches.\<close>

definition is_JWTError :: "exn \<Rightarrow> bool" where
  "is_JWTError e = (e = JWTError \<or> e = ExpiredSignatureError \<or> e = JWTClaimsError)"

text \<open>
  \<open>datetime.timestamp()\<close> of a naive datetime reads it as local time:
  \<open>utcoffset d\<close> is the offset, in seconds, that the host's time zone gives the
  local time \<open>d\<close>. The module calls it on \<open>datetime.utcnow()\<close>.
\<close>

definition timestamp :: "(datetime \<Rightarrow> int) \<Rightarrow> datetime \<Rightarrow> int" where
  "timestamp utcoffset d = d - utcoffset d"

text \<open>The claims that \<open>create_access_token\<close> builds (its lines 47 to 58).\<close>

definition access_token_payload ::
  "Settings \<Rightarrow> (datetime \<Rightarrow> int) \<Rightarrow> datetime \<Rightarrow> string \<Rightarrow> string \<Rightarrow> claims" where
  "access_token_payload settings utcoffset now user_id email =
     (let expires_delta = 3600 * jwt_expiration_hours settings;
          expire = now + expires_delta
      in [(''sub'', JStr user_id),
          (''email'', JStr email),
          (''iat'', JInt (timestamp utcoffset now)),
          (''exp'', JInt (timestamp utcoffset expire))])"

definition create_access_token ::
  "jwt \<Rightarrow> Settings \<Rightarrow> (datetime \<Rightarrow> int) \<Rightarrow> datetime \<Rightarrow> string \<Rightarrow> string \<Rightarrow> exn + string" where
  "create_access_token J settings utcoffset now user_id email =
     encode J (access_token_payload settings utcoffset now user_id email)
       (secret_key settings) (jwt_algorithm settings)"

definition verify_token :: "jwt \<Rightarrow> Settings \<Rightarrow> int \<Rightarrow> string \<Rightarrow> exn + claims option" where
  "verify_token J settings now token =
     (case decode J token (secret_key settings) [jwt_algorithm settings] now of
        Inr payload \<Rightarrow> Inr (Some payload)
      | Inl e \<Rightarrow> if is_JWTError e then Inr None else Inl e)"

definition extract_user_id :: "jwt \<Rightarrow> Settings \<Rightarrow> int \<Rightarrow> string \<Rightarrow> exn + jval option" where
  "extract_user_id J settings now token =
     (case verify_token J settings now token of
        Inl e \<Rightarrow> Inl e
      | Inr None \<Rightarrow> Inr None
      | Inr (Some payload) \<Rightarrow> if payload \<noteq> [] then Inr (dict_get payload ''sub'') else Inr None)"

section \<open>The jose package\<close>

text \<open>
  The package python-jose is not under \<open>src/\<close>. \<open>jose_encode\<close> and \<open>jose_decode\<close>
  follow what its \<open>jwt.encode\<close> and \<open>jwt.decode\<close> do when they are called as
  \<open>auth/jwt.py\<close> calls them: a string key, one permitted algorithm, the default
  options. What they build on is an argument, the record \<open>codec\<close>:
  \<^item> \<open>json_b64\<close>: \<open>json.dumps\<close> and \<open>base64url_encode\<close>, a JSON object to its segment;
  \<^item> \<open>b64_json\<close>: \<open>base64url_decode\<close> and \<open>json.loads\<close>, a segment to its JSON object,
    \<open>None\<close> when the padding is wrong or the bytes are not a JSON object;
  \<^item> \<open>to_b64\<close> and \<open>of_b64\<close>: the same coding for the signature;
  \<^item> \<open>usable\<close>: whether \<open>jwk.construct\<close> makes a key of the string under the algorithm
    (it does for the HMAC algorithms);
  \<^item> \<open>signature\<close>: the signature of a signing input under an algorithm and a key;
  \<^item> \<open>int_of_str\<close>: Python's \<open>int\<close> of a string, \<open>None\<close> when it raises \<open>ValueError\<close>.
\<close>

record codec =
  json_b64 :: "claims \<Rightarrow> string"
  b64_json :: "string \<Rightarrow> claims option"
  to_b64 :: "string \<Rightarrow> string"
  of_b64 :: "string \<Rightarrow> string option"
  usable :: "string \<Rightarrow> string \<Rightarrow> bool"
  signature :: "string \<Rightarrow> string \<Rightarrow> string \<Rightarrow> string"
  int_of_str :: "string \<Rightarrow> int option"

text \<open>\<open>s.rsplit(".", 1)\<close> and \<open>s.split(".", 1)\<close>, \<open>None\<close> when \<open>s\<close> has no dot.\<close>

definition rsplit1 :: "string \<Rightarrow> (string \<times> string) option" where
  "rsplit1 s =
     (if CHR ''.'' \<in> set s
      then Some (rev (tl (dropWhile (\<lambda>c. c \<noteq> CHR ''.'') (rev s))),
                 rev (takeWhile (\<lambda>c. c \<noteq> CHR ''.'') (rev s)))
      else None)"

definition split1 :: "string \<Rightarrow> (string \<times> string) option" where
  "split1 s =
     (if CHR ''.'' \<in> set s
      then Some (takeWhile (\<lambda>c. c \<noteq> CHR ''.'') s, tl (dropWhile (\<lambda>c. c \<noteq> CHR ''.'') s))
      else None)"

text \<open>
  Python's \<open>int(v)\<close> on a claim: \<open>TypeError\<close> on \<open>null\<close> and on a list,
  \<open>ValueError\<close> on a string that is no number.
\<close>

definition py_int :: "codec \<Rightarrow> jval \<Rightarrow> exn + int" where
  "py_int C v =
     (case v of
        JInt i \<Rightarrow> Inr i
      | JBool b \<Rightarrow> Inr (if b then 1 else 0)
      | JStr s \<Rightarrow> (case int_of_str C s of
                     Some i \<Rightarrow> Inr i
                   | None \<Rightarrow> Inl (OtherException ''ValueError''))
      | JNull \<Rightarrow> Inl (OtherException ''TypeError'')
      | JList vs \<Rightarrow> Inl (OtherException ''TypeError''))"

text \<open>
  The claim validators, each returning the exception it raises, if any. They catch
  \<open>ValueError\<close> only, so a \<open>TypeError\<close> of \<open>int\<close> passes through. \<open>_validate_exp\<close>
  raises when \<open>exp < now\<close>: a token is still accepted in the second of its \<open>exp\<close>.
  With no audience and no access token given, a token that carries \<open>aud\<close> or
  \<open>at_hash\<close> is refused.
\<close>

definition validate_iat :: "codec \<Rightarrow> claims \<Rightarrow> exn option" where
  "validate_iat C claims =
     (case dict_get claims ''iat'' of
        None \<Rightarrow> None
      | Some v \<Rightarrow>
          (case py_int C v of
             Inr iat \<Rightarrow> None
           | Inl e \<Rightarrow> if e = OtherException ''ValueError'' then Some JWTClaimsError else Some e))"

definition validate_nbf :: "codec \<Rightarrow> claims \<Rightarrow> int \<Rightarrow> exn option" where
  "validate_nbf C claims now =
     (case dict_get claims ''nbf'' of
        None \<Rightarrow> None
      | Some v \<Rightarrow>
          (case py_int C v of
             Inr nbf \<Rightarrow> if nbf > now then Some JWTClaimsError else None
           | Inl e \<Rightarrow> if e = OtherException ''ValueError'' then Some JWTClaimsError else Some e))"

definition validate_exp :: "codec \<Rightarrow> claims \<Rightarrow> int \<Rightarrow> exn option" where
  "validate_exp C claims now =
     (case dict_get claims ''exp'' of
        None \<Rightarrow> None
      | Some v \<Rightarrow>
          (case py_int C v of
             Inr expires \<Rightarrow> if expires < now then Some ExpiredSignatureError else None
           | Inl e \<Rightarrow> if e = OtherException ''ValueError'' then Some JWTClaimsError else Some e))"

definition validate_aud :: "claims \<Rightarrow> exn option" where
  "validate_aud claims =
     (case dict_get claims ''aud'' of None \<Rightarrow> None | Some v \<Rightarrow> Some JWTClaimsError)"

definition validate_str :: "claims \<Rightarrow> string \<Rightarrow> exn option" where
  "validate_str claims name =
     (case dict_get claims name of
        None \<Rightarrow> None
      | Some (JStr s) \<Rightarrow> None
      | Some v \<Rightarrow> Some JWTClaimsError)"

definition validate_at_hash :: "claims \<Rightarrow> exn option" where
  "validate_at_hash claims =
     (case dict_get claims ''at_hash'' of None \<Rightarrow> None | Some v \<Rightarrow> Some JWTClaimsError)"

text \<open>The first exception in the order in which \<open>_validate_claims\<close> runs the validators.\<close>

fun first_raised :: "exn option list \<Rightarrow> exn option" where
  "first_raised [] = None"
| "first_raised (None # rs) = first_raised rs"
| "first_raised (Some e # rs) = Some e"

definition validate_claims :: "codec \<Rightarrow> claims \<Rightarrow> int \<Rightarrow> exn option" where
  "validate_claims C claims now =
     first_raised
       [validate_iat C claims,
        validate_nbf C claims now,
        validate_exp C claims now,
        validate_aud claims,
        validate_str claims ''sub'',
        validate_str claims ''jti'',
        validate_at_hash claims]"

text \<open>
  \<open>jwt.decode\<close>: split the token at its last and its first dot, decode the header
  and the signature, check that the header's algorithm is a permitted one, build
  the key, compare the signature with the one of the signing input, decode the
  payload and validate its claims. Every \<open>JWSError\<close> on the way is raised again as
  a \<open>JWTError\<close>; the \<open>JWKError\<close> of an unusable key is not.
\<close>

definition jose_decode :: "codec \<Rightarrow> string \<Rightarrow> string \<Rightarrow> string list \<Rightarrow> int \<Rightarrow> exn + claims" where
  "jose_decode C token key algorithms now =
     (case rsplit1 token of
        None \<Rightarrow> Inl JWTError
      | Some (signing_input, crypto_segment) \<Rightarrow>
     (case split1 signing_input of
        None \<Rightarrow> Inl JWTError
      | Some (header_segment, claims_segment) \<Rightarrow>
     (case b64_json C header_segment of
        None \<Rightarrow> Inl JWTError
      | Some header \<Rightarrow>
     (case of_b64 C crypto_segment of
        None \<Rightarrow> Inl JWTError
      | Some sig \<Rightarrow>
     (case dict_get header ''alg'' of
        None \<Rightarrow> Inl JWTError
      | Some (JStr alg) \<Rightarrow>
          if alg = [] \<or> alg \<notin> set algorithms then Inl JWTError
          else if \<not> usable C alg key then Inl (OtherException ''JWKError'')
          else if sig \<noteq> signature C alg key signing_input then Inl JWTError
          else
            (case b64_json C claims_segment of
               None \<Rightarrow> Inl JWTError
             | Some claims \<Rightarrow>
                 (case validate_claims C claims now of
                    Some e \<Rightarrow> Inl e
                  | None \<Rightarrow> Inr claims))
      | Some alg \<Rightarrow> Inl JWTError)))))"

text \<open>
  \<open>jwt.encode\<close>: the segments of the header and of the payload, and the signature of
  the two joined by a dot. An algorithm that is not supported (no supported one has
  the empty name) or a key that is not usable under it makes it raise \<open>JWSError\<close>.
\<close>

definition jose_encode :: "codec \<Rightarrow> claims \<Rightarrow> string \<Rightarrow> string \<Rightarrow> exn + string" where
  "jose_encode C payload key algorithm =
     (if algorithm = [] \<or> \<not> usable C algorithm key then Inl (OtherException ''JWSError'')
      else
        let signing_input =
              json_b64 C [(''alg'', JStr algorithm), (''typ'', JStr ''JWT'')] @ ''.'' @ json_b64 C payload
        in Inr (signing_input @ ''.'' @ to_b64 C (signature C algorithm key signing_input)))"

definition jose :: "codec \<Rightarrow> jwt" where
  "jose C = \<lparr>encode = jose_encode C, decode = jose_decode C\<rparr>"

text \<open>
  The codings give back what they coded, and their segments hold no dot, for the
  header, the payload and the signature of one token.
\<close>

definition segments_round_trip :: "codec \<Rightarrow> string \<Rightarrow> string \<Rightarrow> claims \<Rightarrow> bool" where
  "segments_round_trip C key algorithm payload =
     (let header = [(''alg'', JStr algorithm), (''typ'', JStr ''JWT'')];
          h = json_b64 C header;
          p = json_b64 C payload;
          sig = signature C algorithm key (h @ ''.'' @ p)
      in b64_json C h = Some header \<and> b64_json C p = Some payload \<and>
         of_b64 C (to_b64 C sig) = Some sig \<and>
         CHR ''.'' \<notin> set h \<and> CHR ''.'' \<notin> set p \<and> CHR ''.'' \<notin> set (to_b64 C sig))"

text \<open>A claim that is absent or an integer: \<open>int\<close> raises nothing on it.\<close>

definition int_claim :: "claims \<Rightarrow> string \<Rightarrow> bool" where
  "int_claim claims name =
     (case dict_get claims name of None \<Rightarrow> True | Some (JInt i) \<Rightarrow> True | Some v \<Rightarrow> False)"

section \<open>auth/dependencies.py\<close>

text \<open>
  Modelled from the spec: FastAPI's \<open>HTTPBearer\<close> is not under \<open>src/\<close>. Section 4.3:
  the gate extracts a bearer credential from the \<open>Authorization: Bearer\<close> header,
  and "If absent: reject with an \<open>UNAUTHORIZED\<close> outcome (no payload)"; the optional
  variant "yields no identity instead of rejecting when no credential is
  presented". The argument is the credential the request presents, if any.
\<close>

definition HTTPBearer :: "string option \<Rightarrow> exn + string" where
  "HTTPBearer credential =
     (case credential of
        None \<Rightarrow> Inl (HTTPException 401 (DetailStr ''Not authenticated''))
      | Some token \<Rightarrow> Inr token)"

definition HTTPBearer_optional :: "string option \<Rightarrow> exn + string option" where
  "HTTPBearer_optional credential = Inr credential"

text \<open>
  \<open>get_current_user\<close> with its dependency \<open>Depends(security)\<close> resolved first: the
  body runs only when \<open>security\<close> returned credentials.
\<close>

definition get_current_user :: "jwt \<Rightarrow> Settings \<Rightarrow> int \<Rightarrow> string option \<Rightarrow> exn + jval" where
  "get_current_user J settings now credential =
     (case HTTPBearer credential of
        Inl e \<Rightarrow> Inl e
      | Inr token \<Rightarrow>
          (case verify_token J settings now token of
             Inl e \<Rightarrow> Inl e
           | Inr None \<Rightarrow> Inl (raise_unauthorized ''Missing or invalid authentication token'')
           | Inr (Some payload) \<Rightarrow>
               if payload = []
               then Inl (raise_unauthorized ''Missing or invalid authentication token'')
               else
                 (case dict_get payload ''sub'' of
                    None \<Rightarrow> Inl (raise_unauthorized ''Invalid token structure'')
                  | Some user_id \<Rightarrow>
                      if \<not> truthy user_id
                      then Inl (raise_unauthorized ''Invalid token structure'')
                      else Inr user_id)))"

definition get_current_user_optional ::
  "jwt \<Rightarrow> Settings \<Rightarrow> int \<Rightarrow> string option \<Rightarrow> exn + jval option" where
  "get_current_user_optional J settings now credential =
     (case HTTPBearer_optional credential of
        Inl e \<Rightarrow> Inl e
      | Inr None \<Rightarrow> Inr None
      | Inr (Some token) \<Rightarrow>
          (case verify_token J settings now token of
             Inl e \<Rightarrow> Inl e
           | Inr None \<Rightarrow> Inl (raise_unauthorized ''Invalid authentication token'')
           | Inr (Some payload) \<Rightarrow>
               if payload = []
               then Inl (raise_unauthorized ''Invalid authentication token'')
               else Inr (dict_get payload ''sub'')))"

section \<open>auth/password.py\<close>

text \<open>
  The functions of the \<open>bcrypt\<close> package are arguments of the model. \<open>gensalt\<close>
  takes the number of rounds and the random draw of this call. \<open>bytes\<close> and
  \<open>str\<close> are both \<open>string\<close>: the UTF-8 conversions between them are not modelled.
\<close>

record bcrypt =
  gensalt :: "nat \<Rightarrow> nat \<Rightarrow> string"
  hashpw :: "string \<Rightarrow> string \<Rightarrow> exn + string"
  checkpw :: "string \<Rightarrow> string \<Rightarrow> exn + bool"

definition hash_password :: "bcrypt \<Rightarrow> nat \<Rightarrow> string \<Rightarrow> exn + string" where
  "hash_password B random password =
     (let salt = gensalt B 12 random
      in hashpw B password salt)"

definition verify_password :: "bcrypt \<Rightarrow> string \<Rightarrow> string \<Rightarrow> bool" where
  "verify_password B plain_password hashed_password =
     (case checkpw B plain_password hashed_password of
        Inr b \<Rightarrow> b
      | Inl e \<Rightarrow> False)"

section \<open>The bcrypt package\<close>

text \<open>
  The package bcrypt is not under \<open>src/\<close>. \<open>bcrypt_package\<close> follows what its
  \<open>gensalt\<close>, \<open>hashpw\<close> and \<open>checkpw\<close> do. \<open>hashpw\<close> refuses a password of more than
  72 bytes with \<open>ValueError\<close>, reads the salt off its second argument, which may be
  a salt or a whole hash (\<open>ValueError\<close> when it is not of bcrypt's format), and
  returns that salt followed by the digest of the password under it. \<open>checkpw\<close>
  hashes the password with the stored hash in the place of the salt and compares
  the result with the stored hash. What they build on is an argument, the record
  \<open>bcrypt_core\<close>: \<open>new_salt\<close> makes the salt of \<open>gensalt\<close> from the rounds and the
  random draw, \<open>read_salt\<close> reads the salt off a string, \<open>crypt\<close> is the digest.
  The password arrives encoded: its length is its number of bytes.
\<close>

record bcrypt_core =
  new_salt :: "nat \<Rightarrow> nat \<Rightarrow> string"
  read_salt :: "string \<Rightarrow> string option"
  crypt :: "string \<Rightarrow> string \<Rightarrow> string"

definition bcrypt_hashpw :: "bcrypt_core \<Rightarrow> string \<Rightarrow> string \<Rightarrow> exn + string" where
  "bcrypt_hashpw K password salt =
     (if length password > 72 then Inl (OtherException ''ValueError'')
      else
        (case read_salt K salt of
           None \<Rightarrow> Inl (OtherException ''ValueError'')
         | Some s \<Rightarrow> Inr (s @ crypt K s password)))"

definition bcrypt_checkpw :: "bcrypt_core \<Rightarrow> string \<Rightarrow> string \<Rightarrow> exn + bool" where
  "bcrypt_checkpw K password hashed_password =
     (case bcrypt_hashpw K password hashed_password of
        Inl e \<Rightarrow> Inl e
      | Inr h \<Rightarrow> Inr (h = hashed_password))"

definition bcrypt_package :: "bcrypt_core \<Rightarrow> bcrypt" where
  "bcrypt_package K =
     \<lparr>gensalt = new_salt K, hashpw = bcrypt_hashpw K, checkpw = bcrypt_checkpw K\<rparr>"

section \<open>models: the User and Task tables\<close>

text \<open>
  A \<open>Task\<close> object in memory. \<open>title\<close> and \<open>is_completed\<close> are \<open>NOT NULL\<close> columns,
  but the attribute of the object can hold \<open>None\<close> until a commit checks it, so both
  are options here; \<open>description\<close> and \<open>due_date\<close> are nullable columns.
\<close>

record User =
  id' :: string
  email :: string
  password_hash :: string
  created_at :: datetime

record Task =
  id' :: string
  user_id :: string
  title :: "string option"
  description :: "string option"
  due_date :: "date option"
  is_completed :: "bool option"
  created_at :: datetime
  updated_at :: datetime

text \<open>The database behind a session: the rows of the two tables.\<close>

record database =
  users :: "User list"
  tasks :: "Task list"

text \<open>
  The constraints the tables declare: primary keys, the unique index on
  \<open>users.email\<close>, the foreign key \<open>tasks.user_id\<close>, and the \<open>NOT NULL\<close> columns.
\<close>

definition not_null :: "Task \<Rightarrow> bool" where
  "not_null t = (Task.title t \<noteq> None \<and> Task.is_completed t \<noteq> None)"

definition constraints :: "database \<Rightarrow> bool" where
  "constraints db =
     (distinct (map User.id' (users db)) \<and>
      distinct (map User.email (users db)) \<and>
      distinct (map Task.id' (tasks db)) \<and>
      (\<forall>t \<in> set (tasks db). not_null t \<and> Task.user_id t \<in> set (map User.id' (users db))))"

text \<open>
  \<open>session.add(row); session.commit()\<close> for a new row, for a loaded and modified
  row, and \<open>session.delete(row); session.commit()\<close>. A commit that violates a
  constraint raises \<open>IntegrityError\<close> and writes nothing.
\<close>

definition insert_user :: "database \<Rightarrow> User \<Rightarrow> exn + database" where
  "insert_user db u =
     (if User.id' u \<in> set (map User.id' (users db)) \<or>
         User.email u \<in> set (map User.email (users db))
      then Inl IntegrityError
      else Inr (db\<lparr>users := users db @ [u]\<rparr>))"

definition insert_task :: "database \<Rightarrow> Task \<Rightarrow> exn + database" where
  "insert_task db t =
     (if Task.id' t \<in> set (map Task.id' (tasks db)) \<or> \<not> not_null t \<or>
         Task.user_id t \<notin> set (map User.id' (users db))
      then Inl IntegrityError
      else Inr (db\<lparr>tasks := tasks db @ [t]\<rparr>))"

definition update_row :: "database \<Rightarrow> Task \<Rightarrow> exn + database" where
  "update_row db t =
     (if \<not> not_null t then Inl IntegrityError
      else Inr (db\<lparr>tasks := map (\<lambda>r. if Task.id' r = Task.id' t then t else r) (tasks db)\<rparr>))"

definition delete_row :: "database \<Rightarrow> Task \<Rightarrow> exn + database" where
  "delete_row db t =
     Inr (db\<lparr>tasks := filter (\<lambda>r. Task.id' r \<noteq> Task.id' t) (tasks db)\<rparr>)"

section \<open>schemas/task.py\<close>

record TaskCreate =
  title :: string
  description :: "string option"
  due_date :: "date option"
  is_completed :: bool

text \<open>
  A validated \<open>TaskUpdate\<close>: the four optional fields, and \<open>model_fields_set\<close>, the
  names of the fields the request body gave explicitly (a field given as \<open>null\<close>
  is in the set, with the value \<open>None\<close>; a field left out keeps the default
  \<open>None\<close> and is not in the set).
\<close>

record TaskUpdate =
  title :: "string option"
  description :: "string option"
  due_date :: "date option"
  is_completed :: "bool option"
  model_fields_set :: "string set"

text \<open>An item of the dict that \<open>model_dump\<close> returns: the field's name with its value.\<close>

datatype item =
    Item_title "string option"
  | Item_description "string option"
  | Item_due_date "date option"
  | Item_is_completed "bool option"

definition model_dump_exclude_unset :: "TaskUpdate \<Rightarrow> item list" where
  "model_dump_exclude_unset r =
     (if ''title'' \<in> model_fields_set r then [Item_title (TaskUpdate.title r)] else []) @
     (if ''description'' \<in> model_fields_set r then [Item_description (TaskUpdate.description r)] else []) @
     (if ''due_date'' \<in> model_fields_set r then [Item_due_date (TaskUpdate.due_date r)] else []) @
     (if ''is_completed'' \<in> model_fields_set r then [Item_is_completed (TaskUpdate.is_completed r)] else [])"

fun setattr :: "Task \<Rightarrow> item \<Rightarrow> Task" where
  "setattr task (Item_title v) = task\<lparr>Task.title := v\<rparr>"
| "setattr task (Item_description v) = task\<lparr>Task.description := v\<rparr>"
| "setattr task (Item_due_date v) = task\<lparr>Task.due_date := v\<rparr>"
| "setattr task (Item_is_completed v) = task\<lparr>Task.is_completed := v\<rparr>"

section \<open>routes/tasks.py\<close>

text \<open>
  Every endpoint takes the database and returns the database it leaves behind
  together with its result or the exception it raised. \<open>current_user_id\<close> is the
  value the authentication dependency returned. The clock readings and the fresh
  UUID are arguments.

  PostgreSQL keeps no NUL character in a text column, and its driver refuses a
  statement parameter that holds one: \<open>session.exec\<close> raises \<open>DataError\<close>. Such a
  parameter matches no stored row, so in the lookups by identifier the refusal
  stands in the branch where no row matches.
\<close>

definition holds_nul :: "string \<Rightarrow> bool" where
  "holds_nul s = (CHR 0x00 \<in> set s)"

definition get_tasks :: "database \<Rightarrow> string \<Rightarrow> (exn + Task list) \<times> database" where
  "get_tasks db current_user_id =
     (if holds_nul current_user_id then (Inl DataError, db)
      else (Inr (filter (\<lambda>t. Task.user_id t = current_user_id) (tasks db)), db))"

definition get_task :: "database \<Rightarrow> string \<Rightarrow> string \<Rightarrow> (exn + Task) \<times> database" where
  "get_task db task_id current_user_id =
     (case find (\<lambda>t. Task.id' t = task_id \<and> Task.user_id t = current_user_id) (tasks db) of
        None \<Rightarrow>
          if holds_nul task_id \<or> holds_nul current_user_id then (Inl DataError, db)
          else (Inl (raise_not_found ''Task not found''), db)
      | Some task \<Rightarrow> (Inr task, db))"

definition create_task ::
  "database \<Rightarrow> string \<Rightarrow> datetime \<Rightarrow> datetime \<Rightarrow> TaskCreate \<Rightarrow> string \<Rightarrow> (exn + Task) \<times> database" where
  "create_task db uuid now1 now2 request current_user_id =
     (if TaskCreate.title request = [] \<or> py_strip (TaskCreate.title request) = []
      then (Inl (raise_bad_request ''Title is required'' None), db)
      else
        let new_task =
              \<lparr>Task.id' = uuid,
               Task.user_id = current_user_id,
               Task.title = Some (TaskCreate.title request),
               Task.description = TaskCreate.description request,
               Task.due_date = TaskCreate.due_date request,
               Task.is_completed = Some (TaskCreate.is_completed request),
               Task.created_at = now1,
               Task.updated_at = now2\<rparr>
        in (case insert_task db new_task of
              Inl e \<Rightarrow> (Inl e, db)
            | Inr db' \<Rightarrow> (Inr new_task, db')))"

definition update_task ::
  "database \<Rightarrow> datetime \<Rightarrow> string \<Rightarrow> TaskUpdate \<Rightarrow> string \<Rightarrow> (exn + Task) \<times> database" where
  "update_task db now task_id request current_user_id =
     (case find (\<lambda>t. Task.id' t = task_id \<and> Task.user_id t = current_user_id) (tasks db) of
        None \<Rightarrow>
          if holds_nul task_id \<or> holds_nul current_user_id then (Inl DataError, db)
          else (Inl (raise_not_found ''Task not found''), db)
      | Some task \<Rightarrow>
          let update_data = model_dump_exclude_unset request
          in if update_data = []
             then (Inl (raise_bad_request ''At least one field required'' None), db)
             else
               let task' = (foldl setattr task update_data)\<lparr>Task.updated_at := now\<rparr>
               in (case update_row db task' of
                     Inl e \<Rightarrow> (Inl e, db)
                   | Inr db' \<Rightarrow> (Inr task', db')))"

definition delete_task :: "database \<Rightarrow> string \<Rightarrow> string \<Rightarrow> (exn + string) \<times> database" where
  "delete_task db task_id current_user_id =
     (case find (\<lambda>t. Task.id' t = task_id \<and> Task.user_id t = current_user_id) (tasks db) of
        None \<Rightarrow>
          if holds_nul task_id \<or> holds_nul current_user_id then (Inl DataError, db)
          else (Inl (raise_not_found ''Task not found''), db)
      | Some task \<Rightarrow>
          (case delete_row db task of
             Inl e \<Rightarrow> (Inl e, db)
           | Inr db' \<Rightarrow> (Inr ''Task deleted successfully'', db')))"

section \<open>schemas/auth.py and routes/auth.py\<close>

record RegisterRequest =
  email :: string
  password :: string

record LoginRequest =
  email :: string
  password :: string

record UserResponse =
  id' :: string
  email :: string

record AuthResponse =
  user :: UserResponse
  token :: string

definition register ::
  "bcrypt \<Rightarrow> jwt \<Rightarrow> Settings \<Rightarrow> (datetime \<Rightarrow> int) \<Rightarrow> database \<Rightarrow> string \<Rightarrow> nat \<Rightarrow> datetime \<Rightarrow> datetime \<Rightarrow>
     RegisterRequest \<Rightarrow> (exn + AuthResponse) \<times> database" where
  "register B J settings utcoffset db uuid random now1 now2 request =
     (case find (\<lambda>u. User.email u = RegisterRequest.email request) (users db) of
        Some existing_user \<Rightarrow> (Inl (raise_conflict ''Email already registered''), db)
      | None \<Rightarrow>
          (case hash_password B random (RegisterRequest.password request) of
             Inl e \<Rightarrow> (Inl e, db)
           | Inr password_hash' \<Rightarrow>
               let new_user =
                     \<lparr>User.id' = uuid,
                      User.email = RegisterRequest.email request,
                      User.password_hash = password_hash',
                      User.created_at = now1\<rparr>
               in (case insert_user db new_user of
                     Inl e \<Rightarrow> (Inl e, db)
                   | Inr db' \<Rightarrow>
                       (case create_access_token J settings utcoffset now2
                               (User.id' new_user) (User.email new_user) of
                          Inl e \<Rightarrow> (Inl e, db')
                        | Inr token' \<Rightarrow>
                            (Inr \<lparr>user = \<lparr>UserResponse.id' = User.id' new_user,
                                          UserResponse.email = User.email new_user\<rparr>,
                                  token = token'\<rparr>, db')))))"

definition login ::
  "bcrypt \<Rightarrow> jwt \<Rightarrow> Settings \<Rightarrow> (datetime \<Rightarrow> int) \<Rightarrow> database \<Rightarrow> datetime \<Rightarrow>
     LoginRequest \<Rightarrow> (exn + AuthResponse) \<times> database" where
  "login B J settings utcoffset db now request =
     (let invalid_credentials =
            HTTPException 401
              (DetailDict [(''error'', DStr ''INVALID_CREDENTIALS''),
                           (''message'', DStr ''Invalid email or password'')])
      in case find (\<lambda>u. User.email u = LoginRequest.email request) (users db) of
           None \<Rightarrow> (Inl invalid_credentials, db)
         | Some user' \<Rightarrow>
             if \<not> verify_password B (LoginRequest.password request) (User.password_hash user')
             then (Inl invalid_credentials, db)
             else
               (case create_access_token J settings utcoffset now
                       (User.id' user') (User.email user') of
                  Inl e \<Rightarrow> (Inl e, db)
                | Inr token' \<Rightarrow>
                    (Inr \<lparr>user = \<lparr>UserResponse.id' = User.id' user',
                                  UserResponse.email = User.email user'\<rparr>,
                          token = token'\<rparr>, db)))"

definition logout :: "jval \<Rightarrow> string" where
  "logout current_user_id = ''Logged out successfully''"

section \<open>A small database for the examples\<close>

text \<open>Two users, each owning one task.\<close>

definition example_db :: database where
  "example_db =
     \<lparr>users =
        [\<lparr>User.id' = ''u-alice'', User.email = ''alice@example.com'',
          User.password_hash = ''hash-a'', User.created_at = 100\<rparr>,
         \<lparr>User.id' = ''u-bob'', User.email = ''bob@example.com'',
          User.password_hash = ''hash-b'', User.created_at = 200\<rparr>],
      tasks =
        [\<lparr>Task.id' = ''t1'', Task.user_id = ''u-alice'', Task.title = Some ''Buy groceries'',
          Task.description = Some ''Milk, eggs, bread'', Task.due_date = Some 20,
          Task.is_completed = Some False, Task.created_at = 300, Task.updated_at = 300\<rparr>,
         \<lparr>Task.id' = ''t2'', Task.user_id = ''u-bob'', Task.title = Some ''Call home'',
          Task.description = None, Task.due_date = None,
          Task.is_completed = Some False, Task.created_at = 400, Task.updated_at = 400\<rparr>]\<rparr>"

text \<open>
  Stand-ins for the two libraries, for the examples only: a password check that
  accepts \<open>hash-\<close> followed by the password and raises on any other format, and a
  token library that knows the single token \<open>tok\<close>, made at time 1000 for the user
  \<open>u-alice\<close> and valid under the key \<open>secret\<close> up to the second of its \<open>exp\<close> claim.
\<close>

definition example_settings :: Settings where
  "example_settings =
     \<lparr>better_auth_secret = ''secret'', jwt_algorithm = ''HS256'', jwt_expiration_hours = 24\<rparr>"

definition example_bcrypt :: bcrypt where
  "example_bcrypt =
     \<lparr>gensalt = (\<lambda>rounds random. ''salt''),
      hashpw = (\<lambda>p salt. Inr (''hash-'' @ p)),
      checkpw = (\<lambda>p h. if take 5 h = ''hash-'' then Inr (h = ''hash-'' @ p)
                         else Inl (OtherException ''ValueError''))\<rparr>"

definition example_payload :: claims where
  "example_payload =
     [(''sub'', JStr ''u-alice''), (''email'', JStr ''alice@example.com''),
      (''iat'', JInt 1000), (''exp'', JInt 87400)]"

definition example_jwt :: jwt where
  "example_jwt =
     \<lparr>encode = (\<lambda>payload key algorithm. Inr ''tok''),
      decode = (\<lambda>token key algorithms now.
                  if token = ''tok'' \<and> key = ''secret'' \<and> algorithms = [''HS256'']
                  then (if now > 87400 then Inl ExpiredSignatureError else Inr example_payload)
                  else Inl JWTError)\<rparr>"

text \<open>
  A stand-in for the codings inside the token library: a code book in place of
  base64 and JSON, and as signature the key, the algorithm and the signing input
  with its dot replaced.
\<close>

definition example_book :: "(string \<times> claims) list" where
  "example_book =
     [(''hdr'', [(''alg'', JStr ''HS256''), (''typ'', JStr ''JWT'')]),
      (''alice'', example_payload),
      (''alice-expired'',
         [(''sub'', JStr ''u-alice''), (''email'', JStr ''alice@example.com''),
          (''iat'', JInt 100000), (''exp'', JInt 96400)]),
      (''alice-shifted'',
         [(''sub'', JStr ''u-alice''), (''email'', JStr ''alice@example.com''),
          (''iat'', JInt 67600), (''exp'', JInt 71200)]),
      (''alice-null'', [(''sub'', JStr ''u-alice''), (''exp'', JNull)])]"

definition example_codec :: codec where
  "example_codec =
     \<lparr>json_b64 = (\<lambda>c. case find (\<lambda>entry. snd entry = c) example_book of
                         Some entry \<Rightarrow> fst entry
                       | None \<Rightarrow> ''unknown''),
      b64_json = (\<lambda>segment. map_of example_book segment),
      to_b64 = (\<lambda>sig. sig),
      of_b64 = (\<lambda>segment. Some segment),
      usable = (\<lambda>algorithm key. algorithm \<in> {''HS256'', ''HS384'', ''HS512''}),
      signature = (\<lambda>algorithm key signing_input.
                     key @ '':'' @ algorithm @ '':'' @
                     map (\<lambda>c. if c = CHR ''.'' then CHR ''~'' else c) signing_input),
      int_of_str = (\<lambda>s. None)\<rparr>"

text \<open>
  A stand-in for the core of the password library: two salts, one for the even
  and one for the odd draws, and as digest the password itself.
\<close>

definition example_core :: bcrypt_core where
  "example_core =
     \<lparr>new_salt = (\<lambda>rounds random. if even random then ''$2b$12$AAAAAAAAAAAAAAAAAAAAAA''
                                  else ''$2b$12$BBBBBBBBBBBBBBBBBBBBBB''),
      read_salt = (\<lambda>s. if take 7 s = ''$2b$12$'' \<and> 29 \<le> length s then Some (take 29 s) else None),
      crypt = (\<lambda>salt password. ''='' @ password)\<rparr>"

section \<open>Owner isolation of the task endpoints\<close>

lemma find_owner:
  "find (\<lambda>t. Task.id' t = task_id \<and> Task.user_id t = u) rows = Some task \<Longrightarrow>
     task \<in> set rows \<and> Task.id' task = task_id \<and> Task.user_id task = u"
  by (auto simp: find_Some_iff)

lemma find_owner_None:
  "find (\<lambda>t. Task.id' t = task_id \<and> Task.user_id t = u) rows = None \<longleftrightarrow>
     \<not> (\<exists>t \<in> set rows. Task.id' t = task_id \<and> Task.user_id t = u)"
  by (auto simp: find_None_iff)

lemma setattr_keeps:
  "Task.id' (setattr t i) = Task.id' t"
  "Task.user_id (setattr t i) = Task.user_id t"
  "Task.created_at (setattr t i) = Task.created_at t"
  by (cases i; simp)+

lemma foldl_setattr_keeps:
  "Task.id' (foldl setattr t is) = Task.id' t \<and>
   Task.user_id (foldl setattr t is) = Task.user_id t \<and>
   Task.created_at (foldl setattr t is) = Task.created_at t"
  by (induction "is" arbitrary: t) (simp_all add: setattr_keeps)

lemma filter_map_frame:
  "(\<And>r. r \<in> set rows \<Longrightarrow> P (f r) = P r) \<Longrightarrow>
   (\<And>r. r \<in> set rows \<Longrightarrow> P r \<Longrightarrow> f r = r) \<Longrightarrow>
   filter P (map f rows) = filter P rows"
  by (induction rows) auto

lemma pk_unique:
  "distinct (map Task.id' rows) \<Longrightarrow> r \<in> set rows \<Longrightarrow> t \<in> set rows \<Longrightarrow>
     Task.id' r = Task.id' t \<Longrightarrow> r = t"
  by (meson distinct_map inj_onD)

lemma update_row_frame:
  assumes pk: "distinct (map Task.id' (tasks db))"
    and t: "t \<in> set (tasks db)" "Task.user_id t = u"
    and t': "Task.id' t' = Task.id' t" "Task.user_id t' = u"
    and upd: "update_row db t' = Inr db'"
  shows "filter (\<lambda>r. \<not> (Task.id' r = Task.id' t \<and> Task.user_id r = u)) (tasks db') =
         filter (\<lambda>r. \<not> (Task.id' r = Task.id' t \<and> Task.user_id r = u)) (tasks db) \<and>
         users db' = users db \<and> length (tasks db') = length (tasks db)"
proof -
  from upd have db': "db' = db\<lparr>tasks := map (\<lambda>r. if Task.id' r = Task.id' t' then t' else r) (tasks db)\<rparr>"
    by (auto simp: update_row_def split: if_splits)
  have "filter (\<lambda>r. \<not> (Task.id' r = Task.id' t \<and> Task.user_id r = u))
          (map (\<lambda>r. if Task.id' r = Task.id' t' then t' else r) (tasks db)) =
        filter (\<lambda>r. \<not> (Task.id' r = Task.id' t \<and> Task.user_id r = u)) (tasks db)"
  proof (rule filter_map_frame)
    fix r assume r: "r \<in> set (tasks db)"
    have "Task.id' r = Task.id' t \<Longrightarrow> r = t"
      using pk t r by (auto dest: pk_unique)
    with t t' show "(\<not> (Task.id' (if Task.id' r = Task.id' t' then t' else r) = Task.id' t \<and>
              Task.user_id (if Task.id' r = Task.id' t' then t' else r) = u)) =
          (\<not> (Task.id' r = Task.id' t \<and> Task.user_id r = u))"
      by auto
  next
    fix r assume r: "r \<in> set (tasks db)" "\<not> (Task.id' r = Task.id' t \<and> Task.user_id r = u)"
    have "Task.id' r = Task.id' t \<Longrightarrow> r = t"
      using pk t r by (auto dest: pk_unique)
    with r t t' show "(if Task.id' r = Task.id' t' then t' else r) = r" by auto
  qed
  with db' show ?thesis by simp
qed

lemma delete_row_frame:
  assumes pk: "distinct (map Task.id' (tasks db))"
    and t: "t \<in> set (tasks db)" "Task.user_id t = u"
    and del: "delete_row db t = Inr db'"
  shows "filter (\<lambda>r. \<not> (Task.id' r = Task.id' t \<and> Task.user_id r = u)) (tasks db') =
         filter (\<lambda>r. \<not> (Task.id' r = Task.id' t \<and> Task.user_id r = u)) (tasks db) \<and>
         users db' = users db"
proof -
  from del have db': "db' = db\<lparr>tasks := filter (\<lambda>r. Task.id' r \<noteq> Task.id' t) (tasks db)\<rparr>"
    by (auto simp: delete_row_def)
  have "\<And>r. r \<in> set (tasks db) \<Longrightarrow>
          (Task.id' r \<noteq> Task.id' t \<and> \<not> (Task.id' r = Task.id' t \<and> Task.user_id r = u)) =
          (\<not> (Task.id' r = Task.id' t \<and> Task.user_id r = u))"
    using pk t by (auto dest: pk_unique)
  then have "filter (\<lambda>r. \<not> (Task.id' r = Task.id' t \<and> Task.user_id r = u))
          (filter (\<lambda>r. Task.id' r \<noteq> Task.id' t) (tasks db)) =
        filter (\<lambda>r. \<not> (Task.id' r = Task.id' t \<and> Task.user_id r = u)) (tasks db)"
    by (simp add: conj_commute cong: filter_cong)
  with db' show ?thesis by simp
qed


lemma get_task_found:
  "get_task db task_id u = (Inr task, db') \<Longrightarrow>
     task \<in> set (tasks db) \<and> Task.id' task = task_id \<and> Task.user_id task = u \<and> db' = db"
  by (auto simp: get_task_def raise_not_found_def split: option.splits if_splits dest: find_owner)

lemma update_task_frame:
  assumes pk: "distinct (map Task.id' (tasks db))"
    and run: "update_task db now task_id request u = (res, db')"
  shows "filter (\<lambda>r. \<not> (Task.id' r = task_id \<and> Task.user_id r = u)) (tasks db') =
         filter (\<lambda>r. \<not> (Task.id' r = task_id \<and> Task.user_id r = u)) (tasks db) \<and>
         users db' = users db \<and>
         (\<forall>task. res = Inr task \<longrightarrow> Task.id' task = task_id \<and> Task.user_id task = u)"
proof (cases "find (\<lambda>t. Task.id' t = task_id \<and> Task.user_id t = u) (tasks db)")
  case None
  with run show ?thesis by (auto simp: update_task_def split: if_splits)
next
  case (Some t)
  then have t: "t \<in> set (tasks db)" "Task.id' t = task_id" "Task.user_id t = u"
    by (auto dest: find_owner)
  define t' where "t' = (foldl setattr t (model_dump_exclude_unset request))\<lparr>Task.updated_at := now\<rparr>"
  have t': "Task.id' t' = Task.id' t" "Task.user_id t' = u"
    using t by (simp_all add: t'_def foldl_setattr_keeps)
  show ?thesis
  proof (cases "model_dump_exclude_unset request = [] \<or> (\<exists>e. update_row db t' = Inl e)")
    case True
    with run Some have "db' = db \<and> (\<exists>e. res = Inl e)"
      by (auto simp: update_task_def Let_def t'_def split: sum.splits if_splits)
    then show ?thesis by auto
  next
    case False
    then obtain d where d: "update_row db t' = Inr d"
      by (cases "update_row db t'") auto
    with run Some False have r: "res = Inr t'" "db' = d"
      by (auto simp: update_task_def Let_def t'_def split: sum.splits if_splits)
    from update_row_frame [OF pk t(1) t(3) t' d] r t t' show ?thesis by simp
  qed
qed

lemma delete_task_frame:
  assumes pk: "distinct (map Task.id' (tasks db))"
    and run: "delete_task db task_id u = (res, db')"
  shows "filter (\<lambda>r. \<not> (Task.id' r = task_id \<and> Task.user_id r = u)) (tasks db') =
         filter (\<lambda>r. \<not> (Task.id' r = task_id \<and> Task.user_id r = u)) (tasks db) \<and>
         users db' = users db"
proof (cases "find (\<lambda>t. Task.id' t = task_id \<and> Task.user_id t = u) (tasks db)")
  case None
  with run show ?thesis by (auto simp: delete_task_def split: if_splits)
next
  case (Some t)
  then have t: "t \<in> set (tasks db)" "Task.id' t = task_id" "Task.user_id t = u"
    by (auto dest: find_owner)
  obtain d where d: "delete_row db t = Inr d" by (simp add: delete_row_def)
  with run Some have "db' = d" by (auto simp: delete_task_def)
  with delete_row_frame [OF pk t(1) t(3) d] t show ?thesis by simp
qed

lemma not_found_uniform:
  assumes "\<not> (\<exists>t \<in> set (tasks db). Task.id' t = task_id \<and> Task.user_id t = u)"
    and "\<not> holds_nul task_id" and "\<not> holds_nul u"
  shows "get_task db task_id u =
           (Inl (HTTPException 404 (DetailDict [(''error'', DStr ''NOT_FOUND''), (''message'', DStr ''Task not found'')])), db)"
    and "update_task db now task_id request u =
           (Inl (HTTPException 404 (DetailDict [(''error'', DStr ''NOT_FOUND''), (''message'', DStr ''Task not found'')])), db)"
    and "delete_task db task_id u =
           (Inl (HTTPException 404 (DetailDict [(''error'', DStr ''NOT_FOUND''), (''message'', DStr ''Task not found'')])), db)"
  using assms find_owner_None [of task_id u "tasks db"]
  by (simp_all add: get_task_def update_task_def delete_task_def raise_not_found_def)

lemma not_found_response:
  "handle_exception (HTTPException 404 (DetailDict [(''error'', DStr ''NOT_FOUND''), (''message'', DStr ''Task not found'')])) =
     \<lparr>status_code = 404, content = [(''error'', DStr ''NOT_FOUND''), (''message'', DStr ''Task not found'')]\<rparr>"
  by (simp add: handle_exception_def http_exception_handler_def dict_get_def)


text \<open>
  Read-one, update and delete look a task up by its identifier together with the
  requesting identity. A task is returned only if it is a stored row with that
  identifier and that owner; update and delete leave every row that is not the
  addressed task of the requesting identity, and the users, as they were; and when
  no row has both the identifier and the owner, and neither holds a NUL, all three
  raise the same 404 \<open>NOT_FOUND\<close> exception and leave the database as it was,
  whether the task does not exist or belongs to someone else.
\<close>

lemma owner_isolation:
  assumes pk: "distinct (map Task.id' (tasks db))"
  shows
    "(\<forall>task d. get_task db task_id u = (Inr task, d) \<longrightarrow>
        task \<in> set (tasks db) \<and> Task.id' task = task_id \<and> Task.user_id task = u \<and> d = db) \<and>
     (\<forall>res d. update_task db now task_id request u = (res, d) \<longrightarrow>
        filter (\<lambda>r. \<not> (Task.id' r = task_id \<and> Task.user_id r = u)) (tasks d) =
        filter (\<lambda>r. \<not> (Task.id' r = task_id \<and> Task.user_id r = u)) (tasks db) \<and>
        users d = users db \<and>
        (\<forall>task. res = Inr task \<longrightarrow> Task.id' task = task_id \<and> Task.user_id task = u)) \<and>
     (\<forall>res d. delete_task db task_id u = (res, d) \<longrightarrow>
        filter (\<lambda>r. \<not> (Task.id' r = task_id \<and> Task.user_id r = u)) (tasks d) =
        filter (\<lambda>r. \<not> (Task.id' r = task_id \<and> Task.user_id r = u)) (tasks db) \<and>
        users d = users db) \<and>
     ((\<forall>t \<in> set (tasks db). \<not> (Task.id' t = task_id \<and> Task.user_id t = u)) \<and>
      \<not> holds_nul task_id \<and> \<not> holds_nul u \<longrightarrow>
        get_task db task_id u =
          (Inl (HTTPException 404
                 (DetailDict [(''error'', DStr ''NOT_FOUND''), (''message'', DStr ''Task not found'')])), db) \<and>
        update_task db now task_id request u =
          (Inl (HTTPException 404
                 (DetailDict [(''error'', DStr ''NOT_FOUND''), (''message'', DStr ''Task not found'')])), db) \<and>
        delete_task db task_id u =
          (Inl (HTTPException 404
                 (DetailDict [(''error'', DStr ''NOT_FOUND''), (''message'', DStr ''Task not found'')])), db) \<and>
        handle_exception
          (HTTPException 404
            (DetailDict [(''error'', DStr ''NOT_FOUND''), (''message'', DStr ''Task not found'')])) =
          \<lparr>status_code = 404,
           content = [(''error'', DStr ''NOT_FOUND''), (''message'', DStr ''Task not found'')]\<rparr>)"
proof (intro conjI allI impI)
  fix task d assume "get_task db task_id u = (Inr task, d)"
  from get_task_found [OF this]
  show "task \<in> set (tasks db)" "Task.id' task = task_id" "Task.user_id task = u" "d = db"
    by simp_all
next
  fix res d assume run: "update_task db now task_id request u = (res, d)"
  from update_task_frame [OF pk run]
  show "filter (\<lambda>r. \<not> (Task.id' r = task_id \<and> Task.user_id r = u)) (tasks d) =
        filter (\<lambda>r. \<not> (Task.id' r = task_id \<and> Task.user_id r = u)) (tasks db)"
    "users d = users db" by simp_all
  fix task assume "res = Inr task"
  with update_task_frame [OF pk run]
  show "Task.id' task = task_id" "Task.user_id task = u" by simp_all
next
  fix res d assume run: "delete_task db task_id u = (res, d)"
  from delete_task_frame [OF pk run]
  show "filter (\<lambda>r. \<not> (Task.id' r = task_id \<and> Task.user_id r = u)) (tasks d) =
        filter (\<lambda>r. \<not> (Task.id' r = task_id \<and> Task.user_id r = u)) (tasks db)"
    "users d = users db" by simp_all
next
  assume none: "(\<forall>t \<in> set (tasks db). \<not> (Task.id' t = task_id \<and> Task.user_id t = u)) \<and>
      \<not> holds_nul task_id \<and> \<not> holds_nul u"
  then have n: "\<not> (\<exists>t \<in> set (tasks db). Task.id' t = task_id \<and> Task.user_id t = u)"
    and z: "\<not> holds_nul task_id" "\<not> holds_nul u" by blast+
  show "get_task db task_id u =
          (Inl (HTTPException 404
                 (DetailDict [(''error'', DStr ''NOT_FOUND''), (''message'', DStr ''Task not found'')])), db)"
    by (rule not_found_uniform(1) [OF n z])
  show "update_task db now task_id request u =
          (Inl (HTTPException 404
                 (DetailDict [(''error'', DStr ''NOT_FOUND''), (''message'', DStr ''Task not found'')])), db)"
    by (rule not_found_uniform(2) [OF n z])
  show "delete_task db task_id u =
          (Inl (HTTPException 404
                 (DetailDict [(''error'', DStr ''NOT_FOUND''), (''message'', DStr ''Task not found'')])), db)"
    by (rule not_found_uniform(3) [OF n z])
  show "handle_exception
          (HTTPException 404
            (DetailDict [(''error'', DStr ''NOT_FOUND''), (''message'', DStr ''Task not found'')])) =
          \<lparr>status_code = 404,
           content = [(''error'', DStr ''NOT_FOUND''), (''message'', DStr ''Task not found'')]\<rparr>"
    by (rule not_found_response)
qed

lemma owner_isolation_example:
  "distinct (map Task.id' (tasks example_db)) \<and>
   get_task example_db ''t2'' ''u-alice'' =
     (Inl (HTTPException 404
           (DetailDict [(''error'', DStr ''NOT_FOUND''), (''message'', DStr ''Task not found'')])),
      example_db) \<and>
   get_task example_db ''t9'' ''u-alice'' = get_task example_db ''t2'' ''u-alice'' \<and>
   delete_task example_db ''t9'' ''u-alice'' = delete_task example_db ''t2'' ''u-alice''"
proof -
  have pk: "distinct (map Task.id' (tasks example_db))"
    by (simp add: example_db_def)
  have none2: "(\<forall>t \<in> set (tasks example_db). \<not> (Task.id' t = ''t2'' \<and> Task.user_id t = ''u-alice'')) \<and>
      \<not> holds_nul ''t2'' \<and> \<not> holds_nul ''u-alice''"
    by (simp add: example_db_def holds_nul_def)
  have none9: "(\<forall>t \<in> set (tasks example_db). \<not> (Task.id' t = ''t9'' \<and> Task.user_id t = ''u-alice'')) \<and>
      \<not> holds_nul ''t9'' \<and> \<not> holds_nul ''u-alice''"
    by (simp add: example_db_def holds_nul_def)
  note a = owner_isolation [OF pk, of "''t2''" "''u-alice''", THEN conjunct2, THEN conjunct2,
      THEN conjunct2, THEN mp, OF none2]
  note b = owner_isolation [OF pk, of "''t9''" "''u-alice''", THEN conjunct2, THEN conjunct2,
      THEN conjunct2, THEN mp, OF none9]
  from a b have
    "get_task example_db ''t2'' ''u-alice'' =
       (Inl (HTTPException 404
             (DetailDict [(''error'', DStr ''NOT_FOUND''), (''message'', DStr ''Task not found'')])),
        example_db)"
    "get_task example_db ''t9'' ''u-alice'' = get_task example_db ''t2'' ''u-alice''"
    "delete_task example_db ''t9'' ''u-alice'' = delete_task example_db ''t2'' ''u-alice''"
    by (simp_all only:)
  with pk show ?thesis by (intro conjI)
qed

text \<open>
  Claim C1 (owner isolation; a single 404 when no task matches). The isolation
  holds as stated above, but the outcome for an identifier that matches no task is
  not always the 404: at the identifier \<open>t\<close>, NUL, \<open>1\<close> the statement is refused, the
  three endpoints raise \<open>DataError\<close> and the handler answers 500 \<open>SERVER_ERROR\<close>,
  where an identifier without a NUL that matches no task gets 404 \<open>NOT_FOUND\<close>.
\<close>

theorem lookup_nul_identifier:
  "get_task example_db [CHR ''t'', CHR 0x00, CHR ''1''] ''u-alice'' = (Inl DataError, example_db) \<and>
   update_task example_db 900 [CHR ''t'', CHR 0x00, CHR ''1'']
     \<lparr>TaskUpdate.title = None, TaskUpdate.description = None, TaskUpdate.due_date = None,
      TaskUpdate.is_completed = Some True, model_fields_set = {''is_completed''}\<rparr> ''u-alice'' =
     (Inl DataError, example_db) \<and>
   delete_task example_db [CHR ''t'', CHR 0x00, CHR ''1''] ''u-alice'' = (Inl DataError, example_db) \<and>
   handle_exception DataError =
     \<lparr>status_code = 500,
      content = [(''error'', DStr ''SERVER_ERROR''), (''message'', DStr ''Something went wrong'')]\<rparr> \<and>
   get_task example_db ''t9'' ''u-alice'' =
     (Inl (HTTPException 404
           (DetailDict [(''error'', DStr ''NOT_FOUND''), (''message'', DStr ''Task not found'')])),
      example_db)"
  by (simp add: get_task_def update_task_def delete_task_def holds_nul_def example_db_def
        handle_exception_def generic_exception_handler_def raise_not_found_def)

section \<open>Creating and updating tasks\<close>

lemma model_dump_empty:
  "model_dump_exclude_unset r = [] \<longleftrightarrow>
     ''title'' \<notin> model_fields_set r \<and> ''description'' \<notin> model_fields_set r \<and>
     ''due_date'' \<notin> model_fields_set r \<and> ''is_completed'' \<notin> model_fields_set r"
  by (simp add: model_dump_exclude_unset_def)

lemma foldl_setattr_title:
  "Task.title (foldl setattr t (model_dump_exclude_unset r)) =
     (if ''title'' \<in> model_fields_set r then TaskUpdate.title r else Task.title t)"
  by (simp add: model_dump_exclude_unset_def)

lemma foldl_setattr_description:
  "Task.description (foldl setattr t (model_dump_exclude_unset r)) =
     (if ''description'' \<in> model_fields_set r then TaskUpdate.description r else Task.description t)"
  by (simp add: model_dump_exclude_unset_def)

lemma foldl_setattr_due_date:
  "Task.due_date (foldl setattr t (model_dump_exclude_unset r)) =
     (if ''due_date'' \<in> model_fields_set r then TaskUpdate.due_date r else Task.due_date t)"
  by (simp add: model_dump_exclude_unset_def)

lemma foldl_setattr_is_completed:
  "Task.is_completed (foldl setattr t (model_dump_exclude_unset r)) =
     (if ''is_completed'' \<in> model_fields_set r then TaskUpdate.is_completed r else Task.is_completed t)"
  by (simp add: model_dump_exclude_unset_def)

text \<open>What \<open>update_task\<close> does once the lookup has found the task.\<close>

lemma update_task_found:
  assumes "find (\<lambda>t. Task.id' t = task_id \<and> Task.user_id t = u) (tasks db) = Some task"
  shows "update_task db now task_id request u =
     (if model_dump_exclude_unset request = []
      then (Inl (HTTPException 400
                  (DetailDict [(''error'', DStr ''VALIDATION_ERROR''),
                               (''message'', DStr ''At least one field required'')])), db)
      else if not_null ((foldl setattr task (model_dump_exclude_unset request))\<lparr>Task.updated_at := now\<rparr>)
      then (Inr ((foldl setattr task (model_dump_exclude_unset request))\<lparr>Task.updated_at := now\<rparr>),
            db\<lparr>tasks := map (\<lambda>r. if Task.id' r = task_id
                                  then (foldl setattr task (model_dump_exclude_unset request))\<lparr>Task.updated_at := now\<rparr>
                                  else r) (tasks db)\<rparr>)
      else (Inl IntegrityError, db))"
proof -
  from assms have "Task.id' task = task_id" by (auto dest: find_owner)
  with assms show ?thesis
    by (simp add: update_task_def Let_def raise_bad_request_def update_row_def foldl_setattr_keeps)
qed


text \<open>
  Claim C5 (create ownership). A task that \<open>create_task\<close> creates is owned by the
  identity the authentication dependency returned: it is the one row added to the
  table, the users are untouched, and a failed create writes nothing. The request
  schema has no owner field, so two creates under one identity store the same owner
  whatever their requests carry.
\<close>

theorem create_task_owner:
  "(\<forall>task d. create_task db uuid now1 now2 request u = (Inr task, d) \<longrightarrow>
      Task.user_id task = u \<and> tasks d = tasks db @ [task] \<and> users d = users db) \<and>
   (\<forall>task d task' d'.
      create_task db uuid now1 now2 request u = (Inr task, d) \<and>
      create_task db' uuid' now1' now2' request' u = (Inr task', d') \<longrightarrow>
      Task.user_id task = Task.user_id task') \<and>
   (\<forall>e d. create_task db uuid now1 now2 request u = (Inl e, d) \<longrightarrow> d = db)"
  by (auto simp: create_task_def insert_task_def Let_def split: if_splits)

theorem create_task_owner_witness:
  "create_task example_db ''t3'' 500 501
     \<lparr>TaskCreate.title = ''New task'', TaskCreate.description = None,
      TaskCreate.due_date = None, TaskCreate.is_completed = False\<rparr> ''u-bob'' =
   (Inr \<lparr>Task.id' = ''t3'', Task.user_id = ''u-bob'', Task.title = Some ''New task'',
         Task.description = None, Task.due_date = None, Task.is_completed = Some False,
         Task.created_at = 500, Task.updated_at = 501\<rparr>,
    example_db\<lparr>tasks := tasks example_db @
      [\<lparr>Task.id' = ''t3'', Task.user_id = ''u-bob'', Task.title = Some ''New task'',
         Task.description = None, Task.due_date = None, Task.is_completed = Some False,
         Task.created_at = 500, Task.updated_at = 501\<rparr>]\<rparr>) \<and>
   Task.user_id \<lparr>Task.id' = ''t3'', Task.user_id = ''u-bob'', Task.title = Some ''New task'',
         Task.description = None, Task.due_date = None, Task.is_completed = Some False,
         Task.created_at = 500, Task.updated_at = 501\<rparr> = ''u-bob''"
proof -
  have strip: "py_strip ''New task'' \<noteq> []"
    by (simp add: py_strip_def py_isspace_def)
  have run: "create_task example_db ''t3'' 500 501
     \<lparr>TaskCreate.title = ''New task'', TaskCreate.description = None,
      TaskCreate.due_date = None, TaskCreate.is_completed = False\<rparr> ''u-bob'' =
   (Inr \<lparr>Task.id' = ''t3'', Task.user_id = ''u-bob'', Task.title = Some ''New task'',
         Task.description = None, Task.due_date = None, Task.is_completed = Some False,
         Task.created_at = 500, Task.updated_at = 501\<rparr>,
    example_db\<lparr>tasks := tasks example_db @
      [\<lparr>Task.id' = ''t3'', Task.user_id = ''u-bob'', Task.title = Some ''New task'',
         Task.description = None, Task.due_date = None, Task.is_completed = Some False,
         Task.created_at = 500, Task.updated_at = 501\<rparr>]\<rparr>)"
    using strip
    by (simp add: create_task_def insert_task_def Let_def not_null_def example_db_def)
  from create_task_owner [THEN conjunct1, rule_format, OF run] run
  show ?thesis by (simp only: simp_thms)
qed


text \<open>
  Claim C7 (partial-update frame). A successful update returns and stores the task
  that was found with exactly the fields of \<open>model_fields_set\<close> replaced by the
  request's values: every other field, the identifier, the owner and \<open>created_at\<close>
  keep their values, and \<open>updated_at\<close> is the current time. A request that sets no
  field, addressed to a task of the requesting identity, raises 400 and leaves the
  database as it was.
\<close>

theorem partial_update_frame:
  "(\<forall>task' d. update_task db now task_id request u = (Inr task', d) \<longrightarrow>
      (\<exists>task. find (\<lambda>t. Task.id' t = task_id \<and> Task.user_id t = u) (tasks db) = Some task \<and>
         Task.title task' =
           (if ''title'' \<in> model_fields_set request then TaskUpdate.title request else Task.title task) \<and>
         Task.description task' =
           (if ''description'' \<in> model_fields_set request then TaskUpdate.description request
            else Task.description task) \<and>
         Task.due_date task' =
           (if ''due_date'' \<in> model_fields_set request then TaskUpdate.due_date request
            else Task.due_date task) \<and>
         Task.is_completed task' =
           (if ''is_completed'' \<in> model_fields_set request then TaskUpdate.is_completed request
            else Task.is_completed task) \<and>
         Task.id' task' = Task.id' task \<and>
         Task.user_id task' = Task.user_id task \<and>
         Task.created_at task' = Task.created_at task \<and>
         Task.updated_at task' = now \<and>
         tasks d = map (\<lambda>r. if Task.id' r = task_id then task' else r) (tasks db) \<and>
         users d = users db)) \<and>
   (\<forall>task. find (\<lambda>t. Task.id' t = task_id \<and> Task.user_id t = u) (tasks db) = Some task \<and>
      ''title'' \<notin> model_fields_set request \<and> ''description'' \<notin> model_fields_set request \<and>
      ''due_date'' \<notin> model_fields_set request \<and> ''is_completed'' \<notin> model_fields_set request \<longrightarrow>
      update_task db now task_id request u =
        (Inl (HTTPException 400
               (DetailDict [(''error'', DStr ''VALIDATION_ERROR''),
                            (''message'', DStr ''At least one field required'')])), db) \<and>
      status_code (handle_exception (HTTPException 400
               (DetailDict [(''error'', DStr ''VALIDATION_ERROR''),
                            (''message'', DStr ''At least one field required'')]))) = 400)"
proof (intro conjI allI impI)
  fix task' d
  assume run: "update_task db now task_id request u = (Inr task', d)"
  show "\<exists>task. find (\<lambda>t. Task.id' t = task_id \<and> Task.user_id t = u) (tasks db) = Some task \<and>
         Task.title task' =
           (if ''title'' \<in> model_fields_set request then TaskUpdate.title request else Task.title task) \<and>
         Task.description task' =
           (if ''description'' \<in> model_fields_set request then TaskUpdate.description request
            else Task.description task) \<and>
         Task.due_date task' =
           (if ''due_date'' \<in> model_fields_set request then TaskUpdate.due_date request
            else Task.due_date task) \<and>
         Task.is_completed task' =
           (if ''is_completed'' \<in> model_fields_set request then TaskUpdate.is_completed request
            else Task.is_completed task) \<and>
         Task.id' task' = Task.id' task \<and>
         Task.user_id task' = Task.user_id task \<and>
         Task.created_at task' = Task.created_at task \<and>
         Task.updated_at task' = now \<and>
         tasks d = map (\<lambda>r. if Task.id' r = task_id then task' else r) (tasks db) \<and>
         users d = users db"
  proof (cases "find (\<lambda>t. Task.id' t = task_id \<and> Task.user_id t = u) (tasks db)")
    case None
    with run show ?thesis by (simp add: update_task_def split: if_splits)
  next
    case (Some task)
    define new where "new = (foldl setattr task (model_dump_exclude_unset request))\<lparr>Task.updated_at := now\<rparr>"
    from run update_task_found [OF Some, of now request]
    have r: "task' = new"
      "d = db\<lparr>tasks := map (\<lambda>r. if Task.id' r = task_id then new else r) (tasks db)\<rparr>"
      by (auto simp: new_def split: if_splits)
    have "Task.title new =
           (if ''title'' \<in> model_fields_set request then TaskUpdate.title request else Task.title task)"
      "Task.description new =
           (if ''description'' \<in> model_fields_set request then TaskUpdate.description request
            else Task.description task)"
      "Task.due_date new =
           (if ''due_date'' \<in> model_fields_set request then TaskUpdate.due_date request
            else Task.due_date task)"
      "Task.is_completed new =
           (if ''is_completed'' \<in> model_fields_set request then TaskUpdate.is_completed request
            else Task.is_completed task)"
      "Task.id' new = Task.id' task" "Task.user_id new = Task.user_id task"
      "Task.created_at new = Task.created_at task" "Task.updated_at new = now"
      by (simp_all add: new_def foldl_setattr_title foldl_setattr_description
            foldl_setattr_due_date foldl_setattr_is_completed foldl_setattr_keeps)
    with r Some show ?thesis by simp
  qed
next
  fix task
  assume a: "find (\<lambda>t. Task.id' t = task_id \<and> Task.user_id t = u) (tasks db) = Some task \<and>
      ''title'' \<notin> model_fields_set request \<and> ''description'' \<notin> model_fields_set request \<and>
      ''due_date'' \<notin> model_fields_set request \<and> ''is_completed'' \<notin> model_fields_set request"
  then have "model_dump_exclude_unset request = []" by (simp add: model_dump_empty)
  with a update_task_found [of task_id u db task now request]
  show "update_task db now task_id request u =
        (Inl (HTTPException 400
               (DetailDict [(''error'', DStr ''VALIDATION_ERROR''),
                            (''message'', DStr ''At least one field required'')])), db)"
    by simp
  show "status_code (handle_exception (HTTPException 400
               (DetailDict [(''error'', DStr ''VALIDATION_ERROR''),
                            (''message'', DStr ''At least one field required'')]))) = 400"
    by (simp add: handle_exception_def http_exception_handler_def dict_get_def)
qed


theorem partial_update_frame_witness:
  "update_task example_db 900 ''t1''
     \<lparr>TaskUpdate.title = None, TaskUpdate.description = None, TaskUpdate.due_date = None,
      TaskUpdate.is_completed = Some True, model_fields_set = {''is_completed''}\<rparr> ''u-alice'' =
   (Inr \<lparr>Task.id' = ''t1'', Task.user_id = ''u-alice'', Task.title = Some ''Buy groceries'',
          Task.description = Some ''Milk, eggs, bread'', Task.due_date = Some 20,
          Task.is_completed = Some True, Task.created_at = 300, Task.updated_at = 900\<rparr>,
    example_db\<lparr>tasks :=
      [\<lparr>Task.id' = ''t1'', Task.user_id = ''u-alice'', Task.title = Some ''Buy groceries'',
          Task.description = Some ''Milk, eggs, bread'', Task.due_date = Some 20,
          Task.is_completed = Some True, Task.created_at = 300, Task.updated_at = 900\<rparr>,
       tasks example_db ! 1]\<rparr>) \<and>
   tasks (snd (update_task example_db 900 ''t1''
     \<lparr>TaskUpdate.title = None, TaskUpdate.description = None, TaskUpdate.due_date = None,
      TaskUpdate.is_completed = Some True, model_fields_set = {''is_completed''}\<rparr> ''u-alice'')) =
   map (\<lambda>r. if Task.id' r = ''t1''
        then \<lparr>Task.id' = ''t1'', Task.user_id = ''u-alice'', Task.title = Some ''Buy groceries'',
          Task.description = Some ''Milk, eggs, bread'', Task.due_date = Some 20,
          Task.is_completed = Some True, Task.created_at = 300, Task.updated_at = 900\<rparr>
        else r) (tasks example_db)"
proof -
  have run: "update_task example_db 900 ''t1''
     \<lparr>TaskUpdate.title = None, TaskUpdate.description = None, TaskUpdate.due_date = None,
      TaskUpdate.is_completed = Some True, model_fields_set = {''is_completed''}\<rparr> ''u-alice'' =
   (Inr \<lparr>Task.id' = ''t1'', Task.user_id = ''u-alice'', Task.title = Some ''Buy groceries'',
          Task.description = Some ''Milk, eggs, bread'', Task.due_date = Some 20,
          Task.is_completed = Some True, Task.created_at = 300, Task.updated_at = 900\<rparr>,
    example_db\<lparr>tasks :=
      [\<lparr>Task.id' = ''t1'', Task.user_id = ''u-alice'', Task.title = Some ''Buy groceries'',
          Task.description = Some ''Milk, eggs, bread'', Task.due_date = Some 20,
          Task.is_completed = Some True, Task.created_at = 300, Task.updated_at = 900\<rparr>,
       tasks example_db ! 1]\<rparr>)"
    by (simp add: update_task_def update_row_def not_null_def model_dump_exclude_unset_def
          example_db_def Let_def)
  from partial_update_frame [THEN conjunct1, rule_format, OF run]
  have "tasks (example_db\<lparr>tasks :=
      [\<lparr>Task.id' = ''t1'', Task.user_id = ''u-alice'', Task.title = Some ''Buy groceries'',
          Task.description = Some ''Milk, eggs, bread'', Task.due_date = Some 20,
          Task.is_completed = Some True, Task.created_at = 300, Task.updated_at = 900\<rparr>,
       tasks example_db ! 1]\<rparr>) =
   map (\<lambda>r. if Task.id' r = ''t1''
        then \<lparr>Task.id' = ''t1'', Task.user_id = ''u-alice'', Task.title = Some ''Buy groceries'',
          Task.description = Some ''Milk, eggs, bread'', Task.due_date = Some 20,
          Task.is_completed = Some True, Task.created_at = 300, Task.updated_at = 900\<rparr>
        else r) (tasks example_db)"
    by blast
  with run show ?thesis by (simp only: snd_conv simp_thms)
qed


text \<open>
  A \<open>null\<close> for a \<open>NOT NULL\<close> column reaches the object too, and the commit then
  raises: the update of a found task with \<open>title\<close> given as \<open>null\<close> ends in
  \<open>IntegrityError\<close> with nothing written.
\<close>

lemma update_task_null_title:
  assumes "find (\<lambda>t. Task.id' t = task_id \<and> Task.user_id t = u) (tasks db) = Some task"
    and "''title'' \<in> model_fields_set request" and "TaskUpdate.title request = None"
  shows "update_task db now task_id request u = (Inl IntegrityError, db)"
proof -
  from assms(2) have ne: "model_dump_exclude_unset request \<noteq> []"
    by (simp add: model_dump_empty)
  from assms(2,3) have "\<not> not_null ((foldl setattr task (model_dump_exclude_unset request))\<lparr>Task.updated_at := now\<rparr>)"
    by (simp add: not_null_def foldl_setattr_title)
  with ne update_task_found [OF assms(1), of now request] show ?thesis by simp
qed

text \<open>
  Claim C10 (a field given as \<open>null\<close> is a provided field). For a task of the
  requesting identity: a request whose \<open>model_fields_set\<close> names a field is never
  answered with the 400 of the at-least-one-field check, whatever the values; the
  loop over \<open>update_data\<close> writes the \<open>None\<close> of each such field onto the task
  object; a successful update that gave \<open>description\<close> (or \<open>due_date\<close>) as \<open>null\<close>
  stores \<open>None\<close> there and the current time in \<open>updated_at\<close>, whereas it keeps the
  old value when the field was left out; and the body \<open>{"description": null}\<close> on a
  stored task succeeds with exactly that change.
\<close>

theorem null_field_is_provided:
  "(\<forall>task. find (\<lambda>t. Task.id' t = task_id \<and> Task.user_id t = u) (tasks db) = Some task \<and>
      (''title'' \<in> model_fields_set request \<or> ''description'' \<in> model_fields_set request \<or>
       ''due_date'' \<in> model_fields_set request \<or> ''is_completed'' \<in> model_fields_set request) \<longrightarrow>
      fst (update_task db now task_id request u) \<noteq>
        Inl (HTTPException 400
              (DetailDict [(''error'', DStr ''VALIDATION_ERROR''),
                           (''message'', DStr ''At least one field required'')]))) \<and>
   (\<forall>task.
      (''title'' \<in> model_fields_set request \<and> TaskUpdate.title request = None \<longrightarrow>
         Task.title (foldl setattr task (model_dump_exclude_unset request)) = None) \<and>
      (''description'' \<in> model_fields_set request \<and> TaskUpdate.description request = None \<longrightarrow>
         Task.description (foldl setattr task (model_dump_exclude_unset request)) = None) \<and>
      (''due_date'' \<in> model_fields_set request \<and> TaskUpdate.due_date request = None \<longrightarrow>
         Task.due_date (foldl setattr task (model_dump_exclude_unset request)) = None) \<and>
      (''is_completed'' \<in> model_fields_set request \<and> TaskUpdate.is_completed request = None \<longrightarrow>
         Task.is_completed (foldl setattr task (model_dump_exclude_unset request)) = None)) \<and>
   (\<forall>task task' d.
      find (\<lambda>t. Task.id' t = task_id \<and> Task.user_id t = u) (tasks db) = Some task \<and>
      update_task db now task_id request u = (Inr task', d) \<longrightarrow>
      Task.updated_at task' = now \<and>
      Task.description task' =
        (if ''description'' \<in> model_fields_set request then TaskUpdate.description request
         else Task.description task) \<and>
      Task.due_date task' =
        (if ''due_date'' \<in> model_fields_set request then TaskUpdate.due_date request
         else Task.due_date task) \<and>
      tasks d = map (\<lambda>r. if Task.id' r = task_id then task' else r) (tasks db)) \<and>
   (\<forall>task.
      find (\<lambda>t. Task.id' t = task_id \<and> Task.user_id t = u) (tasks db) = Some task \<and>
      not_null task \<and>
      model_fields_set request = {''description''} \<and> TaskUpdate.description request = None \<longrightarrow>
      update_task db now task_id request u =
        (Inr (task\<lparr>Task.description := None, Task.updated_at := now\<rparr>),
         db\<lparr>tasks := map (\<lambda>r. if Task.id' r = task_id
                               then task\<lparr>Task.description := None, Task.updated_at := now\<rparr>
                               else r) (tasks db)\<rparr>))"
proof (intro conjI allI impI)
  fix task
  assume a: "find (\<lambda>t. Task.id' t = task_id \<and> Task.user_id t = u) (tasks db) = Some task \<and>
      (''title'' \<in> model_fields_set request \<or> ''description'' \<in> model_fields_set request \<or>
       ''due_date'' \<in> model_fields_set request \<or> ''is_completed'' \<in> model_fields_set request)"
  then have "model_dump_exclude_unset request \<noteq> []"
    by (auto simp: model_dump_empty)
  with a update_task_found [of task_id u db task now request]
  show "fst (update_task db now task_id request u) \<noteq>
        Inl (HTTPException 400
              (DetailDict [(''error'', DStr ''VALIDATION_ERROR''),
                           (''message'', DStr ''At least one field required'')]))"
    by simp
next
  fix task
  assume "''title'' \<in> model_fields_set request \<and> TaskUpdate.title request = None"
  then show "Task.title (foldl setattr task (model_dump_exclude_unset request)) = None"
    by (simp add: foldl_setattr_title)
next
  fix task
  assume "''description'' \<in> model_fields_set request \<and> TaskUpdate.description request = None"
  then show "Task.description (foldl setattr task (model_dump_exclude_unset request)) = None"
    by (simp add: foldl_setattr_description)
next
  fix task
  assume "''due_date'' \<in> model_fields_set request \<and> TaskUpdate.due_date request = None"
  then show "Task.due_date (foldl setattr task (model_dump_exclude_unset request)) = None"
    by (simp add: foldl_setattr_due_date)
next
  fix task
  assume "''is_completed'' \<in> model_fields_set request \<and> TaskUpdate.is_completed request = None"
  then show "Task.is_completed (foldl setattr task (model_dump_exclude_unset request)) = None"
    by (simp add: foldl_setattr_is_completed)
next
  fix task task' d
  assume a: "find (\<lambda>t. Task.id' t = task_id \<and> Task.user_id t = u) (tasks db) = Some task \<and>
      update_task db now task_id request u = (Inr task', d)"
  define new where "new = (foldl setattr task (model_dump_exclude_unset request))\<lparr>Task.updated_at := now\<rparr>"
  from a update_task_found [of task_id u db task now request]
  have r: "task' = new"
    "d = db\<lparr>tasks := map (\<lambda>r. if Task.id' r = task_id then new else r) (tasks db)\<rparr>"
    by (auto simp: new_def split: if_splits)
  from r(1) show "Task.updated_at task' = now" by (simp add: new_def)
  from r(1) show "Task.description task' =
        (if ''description'' \<in> model_fields_set request then TaskUpdate.description request
         else Task.description task)"
    by (simp add: new_def foldl_setattr_description)
  from r(1) show "Task.due_date task' =
        (if ''due_date'' \<in> model_fields_set request then TaskUpdate.due_date request
         else Task.due_date task)"
    by (simp add: new_def foldl_setattr_due_date)
  from r show "tasks d = map (\<lambda>r. if Task.id' r = task_id then task' else r) (tasks db)"
    by simp
next
  fix task
  assume a: "find (\<lambda>t. Task.id' t = task_id \<and> Task.user_id t = u) (tasks db) = Some task \<and>
      not_null task \<and>
      model_fields_set request = {''description''} \<and> TaskUpdate.description request = None"
  then have md: "model_dump_exclude_unset request = [Item_description None]"
    by (simp add: model_dump_exclude_unset_def)
  from a have "not_null (task\<lparr>Task.description := None, Task.updated_at := now\<rparr>)"
    by (simp add: not_null_def)
  with a md update_task_found [of task_id u db task now request]
  show "update_task db now task_id request u =
        (Inr (task\<lparr>Task.description := None, Task.updated_at := now\<rparr>),
         db\<lparr>tasks := map (\<lambda>r. if Task.id' r = task_id
                               then task\<lparr>Task.description := None, Task.updated_at := now\<rparr>
                               else r) (tasks db)\<rparr>)"
    by simp
qed

theorem null_field_is_provided_witness:
  "update_task example_db 900 ''t1''
     \<lparr>TaskUpdate.title = None, TaskUpdate.description = None, TaskUpdate.due_date = None,
      TaskUpdate.is_completed = None, model_fields_set = {''description''}\<rparr> ''u-alice'' =
   (Inr ((tasks example_db ! 0)\<lparr>Task.description := None, Task.updated_at := 900\<rparr>),
    example_db\<lparr>tasks := map (\<lambda>r. if Task.id' r = ''t1''
                               then (tasks example_db ! 0)\<lparr>Task.description := None, Task.updated_at := 900\<rparr>
                               else r) (tasks example_db)\<rparr>) \<and>
   Task.description ((tasks example_db ! 0)\<lparr>Task.description := None, Task.updated_at := 900\<rparr>) = None \<and>
   Task.description (tasks example_db ! 0) = Some ''Milk, eggs, bread''"
proof -
  have f: "find (\<lambda>t. Task.id' t = ''t1'' \<and> Task.user_id t = ''u-alice'') (tasks example_db) =
             Some (tasks example_db ! 0)"
    by (simp add: example_db_def)
  have nn: "not_null (tasks example_db ! 0)"
    by (simp add: example_db_def not_null_def)
  have d: "Task.description (tasks example_db ! 0) = Some ''Milk, eggs, bread''"
    by (simp add: example_db_def)
  from null_field_is_provided [of "''t1''" "''u-alice''" example_db
      "\<lparr>TaskUpdate.title = None, TaskUpdate.description = None, TaskUpdate.due_date = None,
        TaskUpdate.is_completed = None, model_fields_set = {''description''}\<rparr>" 900,
      THEN conjunct2, THEN conjunct2, THEN conjunct2, rule_format, of "tasks example_db ! 0"] f nn
  have "update_task example_db 900 ''t1''
     \<lparr>TaskUpdate.title = None, TaskUpdate.description = None, TaskUpdate.due_date = None,
      TaskUpdate.is_completed = None, model_fields_set = {''description''}\<rparr> ''u-alice'' =
   (Inr ((tasks example_db ! 0)\<lparr>Task.description := None, Task.updated_at := 900\<rparr>),
    example_db\<lparr>tasks := map (\<lambda>r. if Task.id' r = ''t1''
                               then (tasks example_db ! 0)\<lparr>Task.description := None, Task.updated_at := 900\<rparr>
                               else r) (tasks example_db)\<rparr>)"
    by simp
  with d show ?thesis by simp
qed

section \<open>Login and registration\<close>

lemma login_failure:
  assumes "find (\<lambda>u. User.email u = LoginRequest.email request) (users db) = None \<or>
     (\<exists>user'. find (\<lambda>u. User.email u = LoginRequest.email request) (users db) = Some user' \<and>
        \<not> verify_password B (LoginRequest.password request) (User.password_hash user'))"
  shows "login B J settings utcoffset db now request =
     (Inl (HTTPException 401
            (DetailDict [(''error'', DStr ''INVALID_CREDENTIALS''),
                         (''message'', DStr ''Invalid email or password'')])), db)"
  using assms by (auto simp: login_def Let_def)

lemma invalid_credentials_response:
  "handle_exception (HTTPException 401
            (DetailDict [(''error'', DStr ''INVALID_CREDENTIALS''),
                         (''message'', DStr ''Invalid email or password'')])) =
     \<lparr>status_code = 401,
      content = [(''error'', DStr ''INVALID_CREDENTIALS''),
                 (''message'', DStr ''Invalid email or password'')]\<rparr>"
  by (simp add: handle_exception_def http_exception_handler_def dict_get_def)

text \<open>
  Claim C8 (login uniform failure). A login whose email matches no user and a login
  whose email matches a user but whose password does not verify raise the same
  exception, which the handler turns into the same response: status 401, error
  \<open>INVALID_CREDENTIALS\<close>, message \<open>Invalid email or password\<close>. Neither writes.
\<close>

theorem login_uniform_failure:
  "(find (\<lambda>u. User.email u = LoginRequest.email request1) (users db1) = None \<and>
    (\<exists>user'. find (\<lambda>u. User.email u = LoginRequest.email request2) (users db2) = Some user' \<and>
        \<not> verify_password B (LoginRequest.password request2) (User.password_hash user')) \<longrightarrow>
      fst (login B J settings utcoffset db1 now1 request1) =
      fst (login B J settings utcoffset db2 now2 request2) \<and>
      login B J settings utcoffset db1 now1 request1 =
        (Inl (HTTPException 401
               (DetailDict [(''error'', DStr ''INVALID_CREDENTIALS''),
                            (''message'', DStr ''Invalid email or password'')])), db1) \<and>
      login B J settings utcoffset db2 now2 request2 =
        (Inl (HTTPException 401
               (DetailDict [(''error'', DStr ''INVALID_CREDENTIALS''),
                            (''message'', DStr ''Invalid email or password'')])), db2)) \<and>
   handle_exception (HTTPException 401
            (DetailDict [(''error'', DStr ''INVALID_CREDENTIALS''),
                         (''message'', DStr ''Invalid email or password'')])) =
     \<lparr>status_code = 401,
      content = [(''error'', DStr ''INVALID_CREDENTIALS''),
                 (''message'', DStr ''Invalid email or password'')]\<rparr>"
proof (intro conjI impI)
  assume a: "find (\<lambda>u. User.email u = LoginRequest.email request1) (users db1) = None \<and>
    (\<exists>user'. find (\<lambda>u. User.email u = LoginRequest.email request2) (users db2) = Some user' \<and>
        \<not> verify_password B (LoginRequest.password request2) (User.password_hash user'))"
  from a show 1: "login B J settings utcoffset db1 now1 request1 =
        (Inl (HTTPException 401
               (DetailDict [(''error'', DStr ''INVALID_CREDENTIALS''),
                            (''message'', DStr ''Invalid email or password'')])), db1)"
    by (intro login_failure) simp
  from a show 2: "login B J settings utcoffset db2 now2 request2 =
        (Inl (HTTPException 401
               (DetailDict [(''error'', DStr ''INVALID_CREDENTIALS''),
                            (''message'', DStr ''Invalid email or password'')])), db2)"
    by (intro login_failure) simp
  from 1 2 show "fst (login B J settings utcoffset db1 now1 request1) =
      fst (login B J settings utcoffset db2 now2 request2)" by simp
next
  show "handle_exception (HTTPException 401
            (DetailDict [(''error'', DStr ''INVALID_CREDENTIALS''),
                         (''message'', DStr ''Invalid email or password'')])) =
     \<lparr>status_code = 401,
      content = [(''error'', DStr ''INVALID_CREDENTIALS''),
                 (''message'', DStr ''Invalid email or password'')]\<rparr>"
    by (rule invalid_credentials_response)
qed

theorem login_uniform_failure_witness:
  "fst (login example_bcrypt example_jwt example_settings (\<lambda>d. 0) example_db 1000
          \<lparr>LoginRequest.email = ''carol@example.com'', LoginRequest.password = ''a''\<rparr>) =
   fst (login example_bcrypt example_jwt example_settings (\<lambda>d. 0) example_db 1000
          \<lparr>LoginRequest.email = ''alice@example.com'', LoginRequest.password = ''wrong''\<rparr>) \<and>
   (\<exists>r. fst (login example_bcrypt example_jwt example_settings (\<lambda>d. 0) example_db 1000
          \<lparr>LoginRequest.email = ''alice@example.com'', LoginRequest.password = ''a''\<rparr>) = Inr r)"
proof -
  have none: "find (\<lambda>u. User.email u = LoginRequest.email
        \<lparr>LoginRequest.email = ''carol@example.com'', LoginRequest.password = ''a''\<rparr>)
        (users example_db) = None"
    by (simp add: example_db_def)
  have wrong: "\<exists>user'. find (\<lambda>u. User.email u = LoginRequest.email
        \<lparr>LoginRequest.email = ''alice@example.com'', LoginRequest.password = ''wrong''\<rparr>)
        (users example_db) = Some user' \<and>
        \<not> verify_password example_bcrypt (LoginRequest.password
          \<lparr>LoginRequest.email = ''alice@example.com'', LoginRequest.password = ''wrong''\<rparr>)
          (User.password_hash user')"
    by (simp add: example_db_def verify_password_def example_bcrypt_def)
  have ok: "\<exists>r. fst (login example_bcrypt example_jwt example_settings (\<lambda>d. 0) example_db 1000
          \<lparr>LoginRequest.email = ''alice@example.com'', LoginRequest.password = ''a''\<rparr>) = Inr r"
    by (simp add: login_def example_db_def verify_password_def example_bcrypt_def
          create_access_token_def example_jwt_def Let_def)
  from login_uniform_failure [THEN conjunct1, THEN mp, OF conjI, OF none wrong, THEN conjunct1] ok
  show ?thesis by (intro conjI)
qed


lemma find_email_Some:
  "e \<in> set (map User.email us) \<Longrightarrow> \<exists>existing. find (\<lambda>u. User.email u = e) us = Some existing"
  by (induction us) auto

lemma register_conflict:
  assumes "RegisterRequest.email request \<in> set (map User.email (users db))"
  shows "register B J settings utcoffset db uuid random now1 now2 request =
     (Inl (HTTPException 409
            (DetailDict [(''error'', DStr ''EMAIL_EXISTS''),
                         (''message'', DStr ''Email already registered'')])), db)"
proof -
  from find_email_Some [OF assms] obtain existing
    where "find (\<lambda>u. User.email u = RegisterRequest.email request) (users db) = Some existing" ..
  then show ?thesis by (simp add: register_def raise_conflict_def)
qed

lemma register_success:
  assumes "register B J settings utcoffset db uuid random now1 now2 request = (Inr resp, d)"
  shows "\<exists>h. users d = users db @
           [\<lparr>User.id' = uuid, User.email = RegisterRequest.email request,
             User.password_hash = h, User.created_at = now1\<rparr>] \<and>
         tasks d = tasks db \<and>
         RegisterRequest.email request \<notin> set (map User.email (users db))"
  using assms
  by (auto simp: register_def insert_user_def Let_def raise_conflict_def
           split: option.splits sum.splits if_splits)

text \<open>
  Claim C9 (registration duplicate). A registration whose email is exactly the email
  of a stored user raises 409 \<open>EMAIL_EXISTS\<close> and leaves the database as it was.
  A registration that succeeds adds one user row with the request's email, so any
  later registration with the same email, on the database the first one left, raises
  that 409 and writes no row.
\<close>

theorem register_duplicate:
  "(RegisterRequest.email request \<in> set (map User.email (users db)) \<longrightarrow>
      register B J settings utcoffset db uuid random now1 now2 request =
        (Inl (HTTPException 409
               (DetailDict [(''error'', DStr ''EMAIL_EXISTS''),
                            (''message'', DStr ''Email already registered'')])), db)) \<and>
   handle_exception (HTTPException 409
       (DetailDict [(''error'', DStr ''EMAIL_EXISTS''), (''message'', DStr ''Email already registered'')])) =
     \<lparr>status_code = 409,
      content = [(''error'', DStr ''EMAIL_EXISTS''), (''message'', DStr ''Email already registered'')]\<rparr> \<and>
   (\<forall>resp d. register B J settings utcoffset db uuid random now1 now2 request = (Inr resp, d) \<longrightarrow>
      length (users d) = length (users db) + 1 \<and>
      User.email (last (users d)) = RegisterRequest.email request \<and>
      tasks d = tasks db \<and>
      (\<forall>request'. RegisterRequest.email request' = RegisterRequest.email request \<longrightarrow>
         register B J settings utcoffset d uuid' random' now1' now2' request' =
           (Inl (HTTPException 409
                  (DetailDict [(''error'', DStr ''EMAIL_EXISTS''),
                               (''message'', DStr ''Email already registered'')])), d)))"
proof (intro conjI allI impI)
  assume "RegisterRequest.email request \<in> set (map User.email (users db))"
  then show "register B J settings utcoffset db uuid random now1 now2 request =
        (Inl (HTTPException 409
               (DetailDict [(''error'', DStr ''EMAIL_EXISTS''),
                            (''message'', DStr ''Email already registered'')])), db)"
    by (rule register_conflict)
next
  show "handle_exception (HTTPException 409
       (DetailDict [(''error'', DStr ''EMAIL_EXISTS''), (''message'', DStr ''Email already registered'')])) =
     \<lparr>status_code = 409,
      content = [(''error'', DStr ''EMAIL_EXISTS''), (''message'', DStr ''Email already registered'')]\<rparr>"
    by (simp add: handle_exception_def http_exception_handler_def dict_get_def)
next
  fix resp d
  assume run: "register B J settings utcoffset db uuid random now1 now2 request = (Inr resp, d)"
  from register_success [OF run] obtain h where
    u: "users d = users db @
           [\<lparr>User.id' = uuid, User.email = RegisterRequest.email request,
             User.password_hash = h, User.created_at = now1\<rparr>]"
    and t: "tasks d = tasks db" by blast
  from u show "length (users d) = length (users db) + 1" by simp
  from u show "User.email (last (users d)) = RegisterRequest.email request" by simp
  from t show "tasks d = tasks db" .
  fix request' :: RegisterRequest
  assume "RegisterRequest.email request' = RegisterRequest.email request"
  with u have "RegisterRequest.email request' \<in> set (map User.email (users d))" by simp
  then show "register B J settings utcoffset d uuid' random' now1' now2' request' =
           (Inl (HTTPException 409
                  (DetailDict [(''error'', DStr ''EMAIL_EXISTS''),
                               (''message'', DStr ''Email already registered'')])), d)"
    by (rule register_conflict)
qed

theorem register_duplicate_witness:
  "(\<exists>resp d. register example_bcrypt example_jwt example_settings (\<lambda>d. 0) example_db ''u-carol'' 7 1000 1000
       \<lparr>RegisterRequest.email = ''carol@example.com'', RegisterRequest.password = ''SecurePass123''\<rparr> =
       (Inr resp, d) \<and>
     length (users d) = 3 \<and>
     register example_bcrypt example_jwt example_settings (\<lambda>d. 0) d ''u-dave'' 8 2000 2000
       \<lparr>RegisterRequest.email = ''carol@example.com'', RegisterRequest.password = ''OtherPass456''\<rparr> =
       (Inl (HTTPException 409
              (DetailDict [(''error'', DStr ''EMAIL_EXISTS''),
                           (''message'', DStr ''Email already registered'')])), d)) \<and>
   register example_bcrypt example_jwt example_settings (\<lambda>d. 0) example_db ''u-dave'' 8 2000 2000
       \<lparr>RegisterRequest.email = ''bob@example.com'', RegisterRequest.password = ''OtherPass456''\<rparr> =
       (Inl (HTTPException 409
              (DetailDict [(''error'', DStr ''EMAIL_EXISTS''),
                           (''message'', DStr ''Email already registered'')])), example_db)"
proof -
  obtain resp d where run:
    "register example_bcrypt example_jwt example_settings (\<lambda>d. 0) example_db ''u-carol'' 7 1000 1000
       \<lparr>RegisterRequest.email = ''carol@example.com'', RegisterRequest.password = ''SecurePass123''\<rparr> =
       (Inr resp, d)"
    by (simp add: register_def example_db_def hash_password_def example_bcrypt_def insert_user_def
          create_access_token_def example_jwt_def Let_def)
  have len: "length (users example_db) = 2" by (simp add: example_db_def)
  have bob: "RegisterRequest.email
       \<lparr>RegisterRequest.email = ''bob@example.com'', RegisterRequest.password = ''OtherPass456''\<rparr>
       \<in> set (map User.email (users example_db))"
    by (simp add: example_db_def)
  note second = register_duplicate [where uuid' = "''u-dave''" and random' = 8 and now1' = 2000
      and now2' = 2000, THEN conjunct2, THEN conjunct2, THEN spec, THEN spec, THEN mp]
  from second [OF run] have l: "length (users d) = length (users example_db) + 1"
    and again': "\<forall>request'. RegisterRequest.email request' = RegisterRequest.email
        \<lparr>RegisterRequest.email = ''carol@example.com'', RegisterRequest.password = ''SecurePass123''\<rparr> \<longrightarrow>
         register example_bcrypt example_jwt example_settings (\<lambda>d. 0) d ''u-dave'' 8 2000 2000 request' =
           (Inl (HTTPException 409
                  (DetailDict [(''error'', DStr ''EMAIL_EXISTS''),
                               (''message'', DStr ''Email already registered'')])), d)"
    by blast+
  from again' have again: "register example_bcrypt example_jwt example_settings (\<lambda>d. 0) d ''u-dave'' 8 2000 2000
       \<lparr>RegisterRequest.email = ''carol@example.com'', RegisterRequest.password = ''OtherPass456''\<rparr> =
       (Inl (HTTPException 409
              (DetailDict [(''error'', DStr ''EMAIL_EXISTS''),
                           (''message'', DStr ''Email already registered'')])), d)"
    by simp
  from l len have "length (users d) = 3" by simp
  with run again register_duplicate [THEN conjunct1, THEN mp, OF bob]
  show ?thesis by blast
qed

section \<open>The authentication gate\<close>

lemma unauthorized_response:
  "handle_exception (raise_unauthorized message) =
     \<lparr>status_code = 401,
      content = [(''error'', DStr ''UNAUTHORIZED''), (''message'', DStr message)]\<rparr>"
  by (simp add: handle_exception_def raise_unauthorized_def http_exception_handler_def dict_get_def)

lemma not_authenticated_response:
  "handle_exception (HTTPException 401 (DetailStr ''Not authenticated'')) =
     \<lparr>status_code = 401,
      content = [(''error'', DStr ''UNAUTHORIZED''), (''message'', DStr ''Not authenticated'')]\<rparr>"
  by (simp add: handle_exception_def http_exception_handler_def get_error_code_from_status_def
        dict_get_def)

text \<open>
  Claim C2 (authentication gate). With no bearer credential the request is rejected
  before the body of \<open>get_current_user\<close> runs, and the handler answers 401
  \<open>UNAUTHORIZED\<close>; with a credential that \<open>verify_token\<close> finds invalid, and with a
  valid token whose payload has no \<open>sub\<close> or a \<open>sub\<close> that Python takes for false, the
  body raises a 401 \<open>UNAUTHORIZED\<close>; otherwise the gate returns the \<open>sub\<close> of the payload.
\<close>

theorem authentication_gate:
  "get_current_user J settings now None = Inl (HTTPException 401 (DetailStr ''Not authenticated'')) \<and>
   handle_exception (HTTPException 401 (DetailStr ''Not authenticated'')) =
     \<lparr>status_code = 401,
      content = [(''error'', DStr ''UNAUTHORIZED''), (''message'', DStr ''Not authenticated'')]\<rparr> \<and>
   (verify_token J settings now tok = Inr None \<longrightarrow>
      get_current_user J settings now (Some tok) =
        Inl (HTTPException 401
              (DetailDict [(''error'', DStr ''UNAUTHORIZED''),
                           (''message'', DStr ''Missing or invalid authentication token'')]))) \<and>
   (verify_token J settings now tok = Inr (Some payload) \<and>
    (dict_get payload ''sub'' = None \<or> (\<exists>v. dict_get payload ''sub'' = Some v \<and> \<not> truthy v)) \<longrightarrow>
      (\<exists>message. get_current_user J settings now (Some tok) =
        Inl (HTTPException 401
              (DetailDict [(''error'', DStr ''UNAUTHORIZED''), (''message'', DStr message)])))) \<and>
   (verify_token J settings now tok = Inr (Some payload) \<and>
    dict_get payload ''sub'' = Some v \<and> truthy v \<longrightarrow>
      get_current_user J settings now (Some tok) = Inr v) \<and>
   (\<forall>message. handle_exception
       (HTTPException 401 (DetailDict [(''error'', DStr ''UNAUTHORIZED''), (''message'', DStr message)])) =
     \<lparr>status_code = 401,
      content = [(''error'', DStr ''UNAUTHORIZED''), (''message'', DStr message)]\<rparr>)"
proof (intro conjI impI allI)
  show "get_current_user J settings now None = Inl (HTTPException 401 (DetailStr ''Not authenticated''))"
    by (simp add: get_current_user_def HTTPBearer_def)
next
  show "handle_exception (HTTPException 401 (DetailStr ''Not authenticated'')) =
     \<lparr>status_code = 401,
      content = [(''error'', DStr ''UNAUTHORIZED''), (''message'', DStr ''Not authenticated'')]\<rparr>"
    by (rule not_authenticated_response)
next
  assume "verify_token J settings now tok = Inr None"
  then show "get_current_user J settings now (Some tok) =
        Inl (HTTPException 401
              (DetailDict [(''error'', DStr ''UNAUTHORIZED''),
                           (''message'', DStr ''Missing or invalid authentication token'')]))"
    by (simp add: get_current_user_def HTTPBearer_def raise_unauthorized_def)
next
  assume a: "verify_token J settings now tok = Inr (Some payload) \<and>
    (dict_get payload ''sub'' = None \<or> (\<exists>v. dict_get payload ''sub'' = Some v \<and> \<not> truthy v))"
  then show "\<exists>message. get_current_user J settings now (Some tok) =
        Inl (HTTPException 401
              (DetailDict [(''error'', DStr ''UNAUTHORIZED''), (''message'', DStr message)]))"
    by (auto simp: get_current_user_def HTTPBearer_def raise_unauthorized_def)
next
  assume a: "verify_token J settings now tok = Inr (Some payload) \<and>
    dict_get payload ''sub'' = Some v \<and> truthy v"
  then have "payload \<noteq> []" by (auto simp: dict_get_def)
  with a show "get_current_user J settings now (Some tok) = Inr v"
    by (simp add: get_current_user_def HTTPBearer_def)
next
  fix message
  show "handle_exception
       (HTTPException 401 (DetailDict [(''error'', DStr ''UNAUTHORIZED''), (''message'', DStr message)])) =
     \<lparr>status_code = 401,
      content = [(''error'', DStr ''UNAUTHORIZED''), (''message'', DStr message)]\<rparr>"
    using unauthorized_response [of message] by (simp add: raise_unauthorized_def)
qed

theorem authentication_gate_witness:
  "get_current_user example_jwt example_settings 1000 (Some ''tok'') = Inr (JStr ''u-alice'') \<and>
   get_current_user example_jwt example_settings 1000 (Some ''forged'') =
     Inl (HTTPException 401
           (DetailDict [(''error'', DStr ''UNAUTHORIZED''),
                        (''message'', DStr ''Missing or invalid authentication token'')])) \<and>
   get_current_user example_jwt example_settings 90000 (Some ''tok'') =
     Inl (HTTPException 401
           (DetailDict [(''error'', DStr ''UNAUTHORIZED''),
                        (''message'', DStr ''Missing or invalid authentication token'')]))"
proof -
  have ok: "verify_token example_jwt example_settings 1000 ''tok'' = Inr (Some example_payload) \<and>
      dict_get example_payload ''sub'' = Some (JStr ''u-alice'') \<and> truthy (JStr ''u-alice'')"
    by (simp add: verify_token_def example_jwt_def example_settings_def secret_key_def
          example_payload_def dict_get_def truthy_def)
  have forged: "verify_token example_jwt example_settings 1000 ''forged'' = Inr None"
    by (simp add: verify_token_def example_jwt_def example_settings_def secret_key_def
          is_JWTError_def)
  have late: "verify_token example_jwt example_settings 90000 ''tok'' = Inr None"
    by (simp add: verify_token_def example_jwt_def example_settings_def secret_key_def
          is_JWTError_def)
  note g = authentication_gate [THEN conjunct2, THEN conjunct2]
  from g [THEN conjunct2, THEN conjunct2, THEN conjunct1, THEN mp, OF ok]
       g [THEN conjunct1, THEN mp, OF forged]
       g [THEN conjunct1, THEN mp, OF late]
  show ?thesis by (intro conjI)
qed

section \<open>The token service\<close>

lemma rsplit1_join:
  assumes "CHR ''.'' \<notin> set cs"
  shows "rsplit1 (si @ ''.'' @ cs) = Some (si, cs)"
proof -
  let ?P = "\<lambda>c. c \<noteq> CHR ''.''"
  from assms have all: "\<And>x. x \<in> set (rev cs) \<Longrightarrow> ?P x" by auto
  have t: "takeWhile ?P (rev cs @ CHR ''.'' # rev si) = rev cs"
    using takeWhile_append2 [of "rev cs" ?P "CHR ''.'' # rev si", OF all] by simp
  have d: "dropWhile ?P (rev cs @ CHR ''.'' # rev si) = CHR ''.'' # rev si"
    using dropWhile_append2 [of "rev cs" ?P "CHR ''.'' # rev si", OF all] by simp
  show ?thesis by (simp add: rsplit1_def t d)
qed

lemma split1_join:
  assumes "CHR ''.'' \<notin> set hs"
  shows "split1 (hs @ ''.'' @ ps) = Some (hs, ps)"
proof -
  let ?P = "\<lambda>c. c \<noteq> CHR ''.''"
  from assms have all: "\<And>x. x \<in> set hs \<Longrightarrow> ?P x" by auto
  have t: "takeWhile ?P (hs @ CHR ''.'' # ps) = hs"
    using takeWhile_append2 [of hs ?P "CHR ''.'' # ps", OF all] by simp
  have d: "dropWhile ?P (hs @ CHR ''.'' # ps) = CHR ''.'' # ps"
    using dropWhile_append2 [of hs ?P "CHR ''.'' # ps", OF all] by simp
  show ?thesis by (simp add: split1_def t d)
qed

lemma rsplit1_Some:
  assumes "rsplit1 tok = Some (si, cs)"
  shows "tok = si @ ''.'' @ cs \<and> CHR ''.'' \<notin> set cs"
proof -
  let ?P = "\<lambda>c. c \<noteq> CHR ''.''"
  from assms have dot: "CHR ''.'' \<in> set tok"
    and si: "si = rev (tl (dropWhile ?P (rev tok)))"
    and cs: "cs = rev (takeWhile ?P (rev tok))"
    by (auto simp: rsplit1_def split: if_splits)
  from dot have ne: "dropWhile ?P (rev tok) \<noteq> []"
    by (auto simp: dropWhile_eq_Nil_conv)
  then have "\<not> ?P (hd (dropWhile ?P (rev tok)))" by (rule hd_dropWhile)
  with ne have d: "dropWhile ?P (rev tok) = CHR ''.'' # tl (dropWhile ?P (rev tok))"
    by (cases "dropWhile ?P (rev tok)") auto
  have "rev tok = takeWhile ?P (rev tok) @ dropWhile ?P (rev tok)" by simp
  then have "rev tok = rev cs @ CHR ''.'' # rev si"
    using d si cs by simp
  then have "rev (rev tok) = rev (rev cs @ CHR ''.'' # rev si)" by (rule arg_cong)
  then have "tok = si @ ''.'' @ cs" by simp
  moreover have "CHR ''.'' \<notin> set cs"
    unfolding cs using set_takeWhileD by fastforce
  ultimately show ?thesis by simp
qed

lemma few_dots_malformed:
  assumes "length (filter (\<lambda>c. c = CHR ''.'') tok) < 2"
  shows "rsplit1 tok = None \<or> (\<exists>si cs. rsplit1 tok = Some (si, cs) \<and> split1 si = None)"
proof (cases "rsplit1 tok")
  case None
  then show ?thesis by simp
next
  case (Some a)
  obtain si cs where a: "a = (si, cs)" by (cases a)
  from rsplit1_Some [of tok si cs] Some a have "tok = si @ ''.'' @ cs" by simp
  with assms have "filter (\<lambda>c. c = CHR ''.'') si = []" by simp
  then have "CHR ''.'' \<notin> set si" by (auto simp: filter_empty_conv)
  then have "split1 si = None" by (simp add: split1_def)
  with Some a show ?thesis by simp
qed

lemma verify_token_jose:
  "verify_token (jose C) settings now tok =
     (case jose_decode C tok (secret_key settings) [jwt_algorithm settings] now of
        Inr payload \<Rightarrow> Inr (Some payload)
      | Inl e \<Rightarrow> if is_JWTError e then Inr None else Inl e)"
  by (simp add: verify_token_def jose_def)

lemma verify_token_malformed:
  "length (filter (\<lambda>c. c = CHR ''.'') tok) < 2 \<Longrightarrow> verify_token (jose C) settings now tok = Inr None"
  using few_dots_malformed [of tok]
  by (auto simp: verify_token_jose jose_decode_def is_JWTError_def)


text \<open>What \<open>jose_decode\<close> does with a token of three segments.\<close>

lemma jose_decode_split:
  assumes "rsplit1 tok = Some (si, cs)" and "split1 si = Some (hs, ps)"
  shows "jose_decode C tok key algorithms now =
     (case b64_json C hs of
        None \<Rightarrow> Inl JWTError
      | Some header \<Rightarrow>
     (case of_b64 C cs of
        None \<Rightarrow> Inl JWTError
      | Some sig \<Rightarrow>
     (case dict_get header ''alg'' of
        None \<Rightarrow> Inl JWTError
      | Some (JStr alg) \<Rightarrow>
          if alg = [] \<or> alg \<notin> set algorithms then Inl JWTError
          else if \<not> usable C alg key then Inl (OtherException ''JWKError'')
          else if sig \<noteq> signature C alg key si then Inl JWTError
          else
            (case b64_json C ps of
               None \<Rightarrow> Inl JWTError
             | Some claims \<Rightarrow>
                 (case validate_claims C claims now of
                    Some e \<Rightarrow> Inl e
                  | None \<Rightarrow> Inr claims))
      | Some alg \<Rightarrow> Inl JWTError)))"
  using assms by (simp add: jose_decode_def)

text \<open>
  Up to the decoding of the payload, a token of three segments under a usable key
  either fails with \<open>JWTError\<close> or passes every check.
\<close>

lemma jose_decode_checked:
  assumes sp: "rsplit1 tok = Some (si, cs)" "split1 si = Some (hs, ps)"
    and key_ok: "usable C alg key"
  shows "jose_decode C tok key [alg] now = Inl JWTError \<or>
     (\<exists>header claims. b64_json C hs = Some header \<and> dict_get header ''alg'' = Some (JStr alg) \<and>
        of_b64 C cs = Some (signature C alg key si) \<and> b64_json C ps = Some claims \<and>
        jose_decode C tok key [alg] now =
          (case validate_claims C claims now of Some e \<Rightarrow> Inl e | None \<Rightarrow> Inr claims))"
  unfolding jose_decode_split [OF sp]
  using key_ok by (auto split: option.splits jval.splits)

lemma validate_claims_expired:
  assumes "dict_get claims ''exp'' = Some (JInt x)" and "x < now"
    and "int_claim claims ''iat''" and "int_claim claims ''nbf''"
  shows "\<exists>e. validate_claims C claims now = Some e \<and> is_JWTError e"
  using assms
  by (auto simp: validate_claims_def validate_iat_def validate_nbf_def validate_exp_def
        int_claim_def py_int_def is_JWTError_def split: option.splits jval.splits)

lemma validate_access_token_payload:
  "validate_claims C (access_token_payload settings utcoffset now s e) at =
     (if timestamp utcoffset (now + 3600 * jwt_expiration_hours settings) < at
      then Some ExpiredSignatureError else None)"
  by (simp add: validate_claims_def validate_iat_def validate_nbf_def validate_exp_def
        validate_aud_def validate_str_def validate_at_hash_def py_int_def
        access_token_payload_def dict_get_def Let_def)

text \<open>A token that \<open>jose_encode\<close> made, decoded under the same key and algorithm.\<close>

lemma jose_decode_encoded:
  assumes enc: "jose_encode C payload key alg = Inr tok"
    and rt: "segments_round_trip C key alg payload"
  shows "jose_decode C tok key [alg] now =
     (case validate_claims C payload now of Some e \<Rightarrow> Inl e | None \<Rightarrow> Inr payload)"
proof -
  let ?header = "[(''alg'', JStr alg), (''typ'', JStr ''JWT'')]"
  let ?h = "json_b64 C ?header" and ?p = "json_b64 C payload"
  let ?sig = "signature C alg key (?h @ ''.'' @ ?p)"
  from enc have ok: "alg \<noteq> []" "usable C alg key"
    and tok: "tok = (?h @ ''.'' @ ?p) @ ''.'' @ to_b64 C ?sig"
    by (auto simp: jose_encode_def Let_def split: if_splits)
  from rt have c: "b64_json C ?h = Some ?header" "b64_json C ?p = Some payload"
      "of_b64 C (to_b64 C ?sig) = Some ?sig"
      "CHR ''.'' \<notin> set ?h" "CHR ''.'' \<notin> set (to_b64 C ?sig)"
    by (simp_all add: segments_round_trip_def Let_def)
  have r: "rsplit1 tok = Some (?h @ ''.'' @ ?p, to_b64 C ?sig)"
    unfolding tok by (rule rsplit1_join [OF c(5)])
  have sp: "split1 (?h @ ''.'' @ ?p) = Some (?h, ?p)"
    by (rule split1_join [OF c(4)])
  show ?thesis
    unfolding jose_decode_split [OF r sp] using c ok by (simp add: dict_get_def)
qed

lemma verify_token_issued:
  assumes issued: "create_access_token (jose C) settings utcoffset now s e = Inr tok"
    and rt: "segments_round_trip C (secret_key settings) (jwt_algorithm settings)
               (access_token_payload settings utcoffset now s e)"
  shows "verify_token (jose C) settings at tok =
     (if timestamp utcoffset (now + 3600 * jwt_expiration_hours settings) < at
      then Inr None
      else Inr (Some (access_token_payload settings utcoffset now s e)))"
proof -
  from issued have enc: "jose_encode C (access_token_payload settings utcoffset now s e)
      (secret_key settings) (jwt_algorithm settings) = Inr tok"
    by (simp add: create_access_token_def jose_def)
  show ?thesis
    by (simp add: verify_token_jose jose_decode_encoded [OF enc rt]
          validate_access_token_payload is_JWTError_def)
qed


text \<open>
  The round trip on any host: it succeeds exactly when the expiry that the code
  computes, the naive expiry time less the host's offset, is not before the
  verification time.
\<close>

lemma round_trip_on_any_host:
  assumes issued: "create_access_token (jose C) settings utcoffset now s e = Inr tok"
    and codec: "segments_round_trip C (secret_key settings) (jwt_algorithm settings)
                  (access_token_payload settings utcoffset now s e)"
  shows "verify_token (jose C) settings now tok =
     (if utcoffset (now + 3600 * jwt_expiration_hours settings) \<le> 3600 * jwt_expiration_hours settings
      then Inr (Some (access_token_payload settings utcoffset now s e))
      else Inr None)"
  by (simp add: verify_token_issued [OF issued codec] timestamp_def)

text \<open>
  Claim C3 (token round trip), as amended. On a host whose local time is UTC and
  with a configured lifetime that is not negative, a token that
  \<open>create_access_token\<close> issued for the subject \<open>s\<close> and the email \<open>e\<close>, verified at
  the same clock time under the same settings, gives a payload whose \<open>sub\<close> is \<open>s\<close>
  and whose \<open>email\<close> is \<open>e\<close>. The codings of the library are taken to give back the
  segments of this token.
\<close>

theorem token_round_trip:
  assumes issued: "create_access_token (jose C) settings (\<lambda>d. 0) now s e = Inr tok"
    and codec: "segments_round_trip C (secret_key settings) (jwt_algorithm settings)
                  (access_token_payload settings (\<lambda>d. 0) now s e)"
    and ttl: "0 \<le> jwt_expiration_hours settings"
  shows "\<exists>payload. verify_token (jose C) settings now tok = Inr (Some payload) \<and>
           dict_get payload ''sub'' = Some (JStr s) \<and>
           dict_get payload ''email'' = Some (JStr e)"
proof -
  from ttl have "verify_token (jose C) settings now tok =
      Inr (Some (access_token_payload settings (\<lambda>d. 0) now s e))"
    by (simp add: round_trip_on_any_host [OF issued codec])
  then show ?thesis
    by (simp add: access_token_payload_def dict_get_def Let_def)
qed

lemma example_codec_round_trip:
  "segments_round_trip example_codec ''secret'' ''HS256'' example_payload"
  "segments_round_trip example_codec ''secret'' ''HS256''
     [(''sub'', JStr ''u-alice''), (''email'', JStr ''alice@example.com''),
      (''iat'', JInt 100000), (''exp'', JInt 96400)]"
  "segments_round_trip example_codec ''secret'' ''HS256''
     [(''sub'', JStr ''u-alice''), (''email'', JStr ''alice@example.com''),
      (''iat'', JInt 67600), (''exp'', JInt 71200)]"
  by (simp_all add: segments_round_trip_def example_codec_def example_book_def example_payload_def)

lemma example_issued:
  "create_access_token (jose example_codec) example_settings (\<lambda>d. 0) 1000 ''u-alice''
     ''alice@example.com'' = Inr ''hdr.alice.secret:HS256:hdr~alice''"
  "create_access_token (jose example_codec) (example_settings\<lparr>jwt_expiration_hours := -1\<rparr>) (\<lambda>d. 0)
     100000 ''u-alice'' ''alice@example.com'' =
     Inr ''hdr.alice-expired.secret:HS256:hdr~alice-expired''"
  "create_access_token (jose example_codec) (example_settings\<lparr>jwt_expiration_hours := 1\<rparr>)
     (\<lambda>d. 32400) 100000 ''u-alice'' ''alice@example.com'' =
     Inr ''hdr.alice-shifted.secret:HS256:hdr~alice-shifted''"
  by (simp_all add: create_access_token_def jose_def jose_encode_def access_token_payload_def
        timestamp_def example_settings_def secret_key_def example_codec_def example_book_def
        example_payload_def Let_def)

lemma example_payloads:
  "access_token_payload example_settings (\<lambda>d. 0) 1000 ''u-alice'' ''alice@example.com'' =
     example_payload"
  "access_token_payload (example_settings\<lparr>jwt_expiration_hours := -1\<rparr>) (\<lambda>d. 0) 100000
     ''u-alice'' ''alice@example.com'' =
     [(''sub'', JStr ''u-alice''), (''email'', JStr ''alice@example.com''),
      (''iat'', JInt 100000), (''exp'', JInt 96400)]"
  "access_token_payload (example_settings\<lparr>jwt_expiration_hours := 1\<rparr>) (\<lambda>d. 32400) 100000
     ''u-alice'' ''alice@example.com'' =
     [(''sub'', JStr ''u-alice''), (''email'', JStr ''alice@example.com''),
      (''iat'', JInt 67600), (''exp'', JInt 71200)]"
  by (simp_all add: access_token_payload_def timestamp_def example_settings_def
        example_payload_def Let_def)

theorem token_round_trip_witness:
  "create_access_token (jose example_codec) example_settings (\<lambda>d. 0) 1000 ''u-alice''
     ''alice@example.com'' = Inr ''hdr.alice.secret:HS256:hdr~alice'' \<and>
   (\<exists>payload. verify_token (jose example_codec) example_settings 1000
        ''hdr.alice.secret:HS256:hdr~alice'' = Inr (Some payload) \<and>
      dict_get payload ''sub'' = Some (JStr ''u-alice'') \<and>
      dict_get payload ''email'' = Some (JStr ''alice@example.com''))"
proof -
  have codec: "segments_round_trip example_codec (secret_key example_settings)
      (jwt_algorithm example_settings)
      (access_token_payload example_settings (\<lambda>d. 0) 1000 ''u-alice'' ''alice@example.com'')"
    unfolding example_payloads using example_codec_round_trip(1)
    by (simp add: secret_key_def example_settings_def)
  have ttl: "0 \<le> jwt_expiration_hours example_settings"
    by (simp add: example_settings_def)
  from token_round_trip [OF example_issued(1) codec ttl] example_issued(1)
  show ?thesis by (intro conjI)
qed

text \<open>
  The claim as it is stated fails in two ways: with a lifetime of minus one hour
  the token is issued expired, which is what a negative lifetime is for; and with
  a lifetime of one hour on a host nine hours ahead of UTC the token is issued
  expired too, because \<open>timestamp()\<close> reads the naive UTC time as local time.
\<close>

theorem token_round_trip_counterexample:
  "create_access_token (jose example_codec) (example_settings\<lparr>jwt_expiration_hours := -1\<rparr>) (\<lambda>d. 0)
     100000 ''u-alice'' ''alice@example.com'' =
     Inr ''hdr.alice-expired.secret:HS256:hdr~alice-expired'' \<and>
   verify_token (jose example_codec) (example_settings\<lparr>jwt_expiration_hours := -1\<rparr>) 100000
     ''hdr.alice-expired.secret:HS256:hdr~alice-expired'' = Inr None \<and>
   create_access_token (jose example_codec) (example_settings\<lparr>jwt_expiration_hours := 1\<rparr>)
     (\<lambda>d. 32400) 100000 ''u-alice'' ''alice@example.com'' =
     Inr ''hdr.alice-shifted.secret:HS256:hdr~alice-shifted'' \<and>
   verify_token (jose example_codec) (example_settings\<lparr>jwt_expiration_hours := 1\<rparr>) 100000
     ''hdr.alice-shifted.secret:HS256:hdr~alice-shifted'' = Inr None"
proof -
  have c1: "segments_round_trip example_codec
      (secret_key (example_settings\<lparr>jwt_expiration_hours := -1\<rparr>))
      (jwt_algorithm (example_settings\<lparr>jwt_expiration_hours := -1\<rparr>))
      (access_token_payload (example_settings\<lparr>jwt_expiration_hours := -1\<rparr>) (\<lambda>d. 0) 100000
         ''u-alice'' ''alice@example.com'')"
    unfolding example_payloads using example_codec_round_trip(2)
    by (simp add: secret_key_def example_settings_def)
  have c2: "segments_round_trip example_codec
      (secret_key (example_settings\<lparr>jwt_expiration_hours := 1\<rparr>))
      (jwt_algorithm (example_settings\<lparr>jwt_expiration_hours := 1\<rparr>))
      (access_token_payload (example_settings\<lparr>jwt_expiration_hours := 1\<rparr>) (\<lambda>d. 32400) 100000
         ''u-alice'' ''alice@example.com'')"
    unfolding example_payloads using example_codec_round_trip(3)
    by (simp add: secret_key_def example_settings_def)
  have v1: "verify_token (jose example_codec) (example_settings\<lparr>jwt_expiration_hours := -1\<rparr>) 100000
     ''hdr.alice-expired.secret:HS256:hdr~alice-expired'' = Inr None"
    by (simp add: round_trip_on_any_host [OF example_issued(2) c1])
  have v2: "verify_token (jose example_codec) (example_settings\<lparr>jwt_expiration_hours := 1\<rparr>) 100000
     ''hdr.alice-shifted.secret:HS256:hdr~alice-shifted'' = Inr None"
    by (simp add: round_trip_on_any_host [OF example_issued(3) c2])
  from example_issued(2,3) v1 v2 show ?thesis by (intro conjI)
qed


lemma verify_token_JWTError:
  "jose_decode C tok (secret_key settings) [jwt_algorithm settings] now = Inl e \<Longrightarrow> is_JWTError e \<Longrightarrow>
     verify_token (jose C) settings now tok = Inr None"
  by (simp add: verify_token_jose)

text \<open>
  Claim C4 (verification rejects with a single \<open>None\<close>), as amended. With a key that
  is usable under the configured algorithm, \<open>verify_token\<close> returns \<open>None\<close>
  \<^item> for a string with fewer than two dots, so with fewer than three segments;
  \<^item> for a token whose header or signature segment does not decode, or whose
    header names another algorithm than the configured one;
  \<^item> for a token whose signature is not the signature of its signing input under
    the configured secret;
  \<^item> for a token whose payload segment does not decode;
  \<^item> for a token whose \<open>exp\<close> claim is an integer before the current time, its \<open>iat\<close>
    and \<open>nbf\<close> claims being absent or integers;
  \<^item> for an access token issued with an expiry before the current time.
  In each case the result is the same \<open>None\<close>.
\<close>

theorem verify_token_rejects:
  assumes key_ok: "usable C (jwt_algorithm settings) (secret_key settings)"
  shows
    "(\<forall>tok. length (filter (\<lambda>c. c = CHR ''.'') tok) < 2 \<longrightarrow>
        verify_token (jose C) settings now tok = Inr None) \<and>
     (\<forall>tok si cs hs ps.
        rsplit1 tok = Some (si, cs) \<and> split1 si = Some (hs, ps) \<longrightarrow>
        (b64_json C hs = None \<or> of_b64 C cs = None \<longrightarrow>
           verify_token (jose C) settings now tok = Inr None) \<and>
        (\<forall>header. b64_json C hs = Some header \<and>
           dict_get header ''alg'' \<noteq> Some (JStr (jwt_algorithm settings)) \<longrightarrow>
           verify_token (jose C) settings now tok = Inr None) \<and>
        (\<forall>sig. of_b64 C cs = Some sig \<and>
           sig \<noteq> signature C (jwt_algorithm settings) (secret_key settings) si \<longrightarrow>
           verify_token (jose C) settings now tok = Inr None) \<and>
        (b64_json C ps = None \<longrightarrow> verify_token (jose C) settings now tok = Inr None) \<and>
        (\<forall>claims x. b64_json C ps = Some claims \<and> dict_get claims ''exp'' = Some (JInt x) \<and>
           x < now \<and> int_claim claims ''iat'' \<and> int_claim claims ''nbf'' \<longrightarrow>
           verify_token (jose C) settings now tok = Inr None)) \<and>
     (\<forall>utcoffset issued_at s e tok.
        create_access_token (jose C) settings utcoffset issued_at s e = Inr tok \<and>
        segments_round_trip C (secret_key settings) (jwt_algorithm settings)
          (access_token_payload settings utcoffset issued_at s e) \<and>
        timestamp utcoffset (issued_at + 3600 * jwt_expiration_hours settings) < now \<longrightarrow>
        verify_token (jose C) settings now tok = Inr None)"
proof (intro conjI allI impI)
  fix tok :: string
  assume "length (filter (\<lambda>c. c = CHR ''.'') tok) < 2"
  then show "verify_token (jose C) settings now tok = Inr None"
    by (rule verify_token_malformed)
next
  fix tok si cs hs ps
  assume sp: "rsplit1 tok = Some (si, cs) \<and> split1 si = Some (hs, ps)"
  assume "b64_json C hs = None \<or> of_b64 C cs = None"
  then have "jose_decode C tok (secret_key settings) [jwt_algorithm settings] now = Inl JWTError"
    using sp by (auto simp: jose_decode_split split: option.splits)
  then show "verify_token (jose C) settings now tok = Inr None"
    by (rule verify_token_JWTError) (simp add: is_JWTError_def)
next
  fix tok si cs hs ps header
  assume sp: "rsplit1 tok = Some (si, cs) \<and> split1 si = Some (hs, ps)"
  assume "b64_json C hs = Some header \<and>
           dict_get header ''alg'' \<noteq> Some (JStr (jwt_algorithm settings))"
  then have "jose_decode C tok (secret_key settings) [jwt_algorithm settings] now = Inl JWTError"
    using sp by (auto simp: jose_decode_split split: option.splits jval.splits)
  then show "verify_token (jose C) settings now tok = Inr None"
    by (rule verify_token_JWTError) (simp add: is_JWTError_def)
next
  fix tok si cs hs ps sig
  assume sp: "rsplit1 tok = Some (si, cs) \<and> split1 si = Some (hs, ps)"
  assume "of_b64 C cs = Some sig \<and>
           sig \<noteq> signature C (jwt_algorithm settings) (secret_key settings) si"
  with jose_decode_checked [of tok si cs hs ps C "jwt_algorithm settings" "secret_key settings" now]
    sp key_ok
  have "jose_decode C tok (secret_key settings) [jwt_algorithm settings] now = Inl JWTError"
    by auto
  then show "verify_token (jose C) settings now tok = Inr None"
    by (rule verify_token_JWTError) (simp add: is_JWTError_def)
next
  fix tok si cs hs ps
  assume sp: "rsplit1 tok = Some (si, cs) \<and> split1 si = Some (hs, ps)"
  assume "b64_json C ps = None"
  with jose_decode_checked [of tok si cs hs ps C "jwt_algorithm settings" "secret_key settings" now]
    sp key_ok
  have "jose_decode C tok (secret_key settings) [jwt_algorithm settings] now = Inl JWTError"
    by auto
  then show "verify_token (jose C) settings now tok = Inr None"
    by (rule verify_token_JWTError) (simp add: is_JWTError_def)
next
  fix tok si cs hs ps claims x
  assume sp: "rsplit1 tok = Some (si, cs) \<and> split1 si = Some (hs, ps)"
  assume a: "b64_json C ps = Some claims \<and> dict_get claims ''exp'' = Some (JInt x) \<and>
           x < now \<and> int_claim claims ''iat'' \<and> int_claim claims ''nbf''"
  then obtain e where e: "validate_claims C claims now = Some e" "is_JWTError e"
    using validate_claims_expired [of claims x now C] by auto
  with jose_decode_checked [of tok si cs hs ps C "jwt_algorithm settings" "secret_key settings" now]
    sp key_ok a
  have "\<exists>e. jose_decode C tok (secret_key settings) [jwt_algorithm settings] now = Inl e \<and>
          is_JWTError e"
    by (auto simp: is_JWTError_def)
  then show "verify_token (jose C) settings now tok = Inr None"
    by (auto intro: verify_token_JWTError)
next
  fix utcoffset issued_at s e tok
  assume a: "create_access_token (jose C) settings utcoffset issued_at s e = Inr tok \<and>
        segments_round_trip C (secret_key settings) (jwt_algorithm settings)
          (access_token_payload settings utcoffset issued_at s e) \<and>
        timestamp utcoffset (issued_at + 3600 * jwt_expiration_hours settings) < now"
  then have i: "create_access_token (jose C) settings utcoffset issued_at s e = Inr tok"
    and c: "segments_round_trip C (secret_key settings) (jwt_algorithm settings)
          (access_token_payload settings utcoffset issued_at s e)"
    and x: "timestamp utcoffset (issued_at + 3600 * jwt_expiration_hours settings) < now"
    by simp_all
  from x show "verify_token (jose C) settings now tok = Inr None"
    by (simp add: verify_token_issued [OF i c])
qed


lemma example_token_split:
  "rsplit1 ''hdr.alice.secret:HS256:hdr~alice'' = Some (''hdr.alice'', ''secret:HS256:hdr~alice'')"
  "rsplit1 ''hdr.alice.forged'' = Some (''hdr.alice'', ''forged'')"
  "rsplit1 ''hdr.unknown.secret:HS256:hdr~unknown'' =
     Some (''hdr.unknown'', ''secret:HS256:hdr~unknown'')"
  "rsplit1 ''hdr.alice-null.secret:HS256:hdr~alice-null'' =
     Some (''hdr.alice-null'', ''secret:HS256:hdr~alice-null'')"
  "split1 ''hdr.alice'' = Some (''hdr'', ''alice'')"
  "split1 ''hdr.unknown'' = Some (''hdr'', ''unknown'')"
  "split1 ''hdr.alice-null'' = Some (''hdr'', ''alice-null'')"
  by (simp_all add: rsplit1_def split1_def)

theorem verify_token_rejects_witness:
  "verify_token (jose example_codec) example_settings 1000 ''not-a-token'' = Inr None \<and>
   verify_token (jose example_codec) example_settings 1000 ''hdr.alice.forged'' = Inr None \<and>
   verify_token (jose example_codec) example_settings 1000
     ''hdr.unknown.secret:HS256:hdr~unknown'' = Inr None \<and>
   verify_token (jose example_codec) example_settings 87401
     ''hdr.alice.secret:HS256:hdr~alice'' = Inr None"
proof -
  have key_ok: "usable example_codec (jwt_algorithm example_settings) (secret_key example_settings)"
    by (simp add: example_codec_def example_settings_def secret_key_def)
  note r = verify_token_rejects [OF key_ok]
  have few: "length (filter (\<lambda>c. c = CHR ''.'') ''not-a-token'') < 2" by simp
  have forged: "of_b64 example_codec ''forged'' = Some ''forged'' \<and>
      ''forged'' \<noteq> signature example_codec (jwt_algorithm example_settings)
        (secret_key example_settings) ''hdr.alice''"
    by (simp add: example_codec_def example_settings_def secret_key_def)
  have unknown: "b64_json example_codec ''unknown'' = None"
    by (simp add: example_codec_def example_book_def)
  have late: "b64_json example_codec ''alice'' = Some example_payload \<and>
      dict_get example_payload ''exp'' = Some (JInt 87400) \<and> (87400::int) < 87401 \<and>
      int_claim example_payload ''iat'' \<and> int_claim example_payload ''nbf''"
    by (simp add: example_codec_def example_book_def example_payload_def dict_get_def
          int_claim_def)
  from r [THEN conjunct1, THEN spec, THEN mp, OF few]
  have 1: "verify_token (jose example_codec) example_settings 1000 ''not-a-token'' = Inr None" .
  note seg = r [THEN conjunct2, THEN conjunct1, THEN spec, THEN spec, THEN spec, THEN spec,
      THEN spec, THEN mp, OF conjI]
  from seg [OF example_token_split(2) example_token_split(5), THEN conjunct2, THEN conjunct2,
      THEN conjunct1, THEN spec, THEN mp, OF forged]
  have 2: "verify_token (jose example_codec) example_settings 1000 ''hdr.alice.forged'' = Inr None" .
  from seg [OF example_token_split(3) example_token_split(6), THEN conjunct2, THEN conjunct2,
      THEN conjunct2, THEN conjunct1, THEN mp, OF unknown]
  have 3: "verify_token (jose example_codec) example_settings 1000
     ''hdr.unknown.secret:HS256:hdr~unknown'' = Inr None" .
  from seg [OF example_token_split(1) example_token_split(5), THEN conjunct2, THEN conjunct2,
      THEN conjunct2, THEN conjunct2, THEN spec, THEN spec, THEN mp, OF late]
  have 4: "verify_token (jose example_codec) example_settings 87401
     ''hdr.alice.secret:HS256:hdr~alice'' = Inr None" .
  from 1 2 3 4 show ?thesis by (intro conjI)
qed

text \<open>
  The claim as it is stated fails at the second of the \<open>exp\<close> claim: the token that
  was issued at 1000 with \<open>exp\<close> 87400 is still accepted when the clock shows 87400.
\<close>

theorem verify_token_boundary_counterexample:
  "create_access_token (jose example_codec) example_settings (\<lambda>d. 0) 1000 ''u-alice''
     ''alice@example.com'' = Inr ''hdr.alice.secret:HS256:hdr~alice'' \<and>
   dict_get example_payload ''exp'' = Some (JInt 87400) \<and>
   verify_token (jose example_codec) example_settings 87400
     ''hdr.alice.secret:HS256:hdr~alice'' = Inr (Some example_payload)"
proof -
  have codec: "segments_round_trip example_codec (secret_key example_settings)
      (jwt_algorithm example_settings)
      (access_token_payload example_settings (\<lambda>d. 0) 1000 ''u-alice'' ''alice@example.com'')"
    unfolding example_payloads using example_codec_round_trip(1)
    by (simp add: secret_key_def example_settings_def)
  have "timestamp (\<lambda>d. 0) (1000 + 3600 * jwt_expiration_hours example_settings) = 87400"
    by (simp add: timestamp_def example_settings_def)
  with verify_token_issued [OF example_issued(1) codec, of 87400]
  have "verify_token (jose example_codec) example_settings 87400
     ''hdr.alice.secret:HS256:hdr~alice'' = Inr (Some example_payload)"
    by (simp only: example_payloads less_irrefl if_False)
  moreover have "dict_get example_payload ''exp'' = Some (JInt 87400)"
    by (simp add: example_payload_def dict_get_def)
  ultimately show ?thesis using example_issued(1) by (intro conjI)
qed

text \<open>
  \<open>verify_token\<close> catches \<open>JWTError\<close> only. A correctly signed token whose \<open>exp\<close> claim
  is \<open>null\<close> makes \<open>int\<close> raise \<open>TypeError\<close> inside \<open>decode\<close>; \<open>verify_token\<close>
  raises it, the gate raises it, and the handler answers 500.
\<close>

lemma verify_token_raises:
  "verify_token (jose example_codec) example_settings 1000
     ''hdr.alice-null.secret:HS256:hdr~alice-null'' = Inl (OtherException ''TypeError'')"
  "get_current_user (jose example_codec) example_settings 1000
     (Some ''hdr.alice-null.secret:HS256:hdr~alice-null'') = Inl (OtherException ''TypeError'')"
  "status_code (handle_exception (OtherException ''TypeError'')) = 500"
proof -
  show v: "verify_token (jose example_codec) example_settings 1000
     ''hdr.alice-null.secret:HS256:hdr~alice-null'' = Inl (OtherException ''TypeError'')"
    by (simp add: verify_token_jose
          jose_decode_split [OF example_token_split(4) example_token_split(7)]
          example_codec_def example_book_def example_settings_def secret_key_def dict_get_def
          validate_claims_def validate_iat_def validate_nbf_def validate_exp_def py_int_def
          is_JWTError_def)
  show "get_current_user (jose example_codec) example_settings 1000
     (Some ''hdr.alice-null.secret:HS256:hdr~alice-null'') = Inl (OtherException ''TypeError'')"
    by (simp add: get_current_user_def HTTPBearer_def v)
  show "status_code (handle_exception (OtherException ''TypeError'')) = 500"
    by (simp add: handle_exception_def generic_exception_handler_def)
qed

section \<open>The password functions\<close>

text \<open>
  \<open>verify_password\<close> raises nothing: an exception of \<open>checkpw\<close>, as for a string
  that is no hash, is answered with \<open>False\<close>, the answer of a mismatch.
\<close>

lemma verify_password_no_raise:
  "checkpw B plain_password hashed_password = Inl e \<Longrightarrow>
     verify_password B plain_password hashed_password = False"
  "verify_password B plain_password hashed_password \<Longrightarrow>
     checkpw B plain_password hashed_password = Inr True"
  by (auto simp: verify_password_def split: sum.splits)

lemma hash_password_package:
  "hash_password (bcrypt_package K) r P =
     (if length P > 72 then Inl (OtherException ''ValueError'')
      else case read_salt K (new_salt K 12 r) of
             None \<Rightarrow> Inl (OtherException ''ValueError'')
           | Some s \<Rightarrow> Inr (s @ crypt K s P))"
  by (simp add: hash_password_def bcrypt_package_def bcrypt_hashpw_def Let_def)

lemma verify_password_package:
  "verify_password (bcrypt_package K) p h =
     (length p \<le> 72 \<and> (\<exists>s. read_salt K h = Some s \<and> s @ crypt K s p = h))"
  by (auto simp: verify_password_def bcrypt_package_def bcrypt_checkpw_def bcrypt_hashpw_def
        split: option.splits)

text \<open>
  Claim C6 (password hash and verify), as amended. For a password \<open>P\<close> of at most
  72 bytes, with salts that the library reads back as it made them:
  two calls of \<open>hash_password\<close> succeed and give different strings whenever they
  drew different salts; \<open>verify_password\<close> accepts \<open>P\<close> against its hash; it rejects
  every password whose digest under the salt differs from the one of \<open>P\<close>, and
  every password of more than 72 bytes; and for a string that is not of the hash
  format, or whenever \<open>checkpw\<close> raises, it returns \<open>False\<close> and raises nothing.
\<close>

theorem password_hash_verify:
  assumes short: "length P \<le> 72"
    and salt1: "read_salt K (new_salt K 12 r1) = Some (new_salt K 12 r1)"
    and salt2: "read_salt K (new_salt K 12 r2) = Some (new_salt K 12 r2)"
    and same_length: "length (new_salt K 12 r1) = length (new_salt K 12 r2)"
    and reread: "read_salt K (new_salt K 12 r1 @ crypt K (new_salt K 12 r1) P) =
                   Some (new_salt K 12 r1)"
  shows
    "hash_password (bcrypt_package K) r1 P =
       Inr (new_salt K 12 r1 @ crypt K (new_salt K 12 r1) P) \<and>
     hash_password (bcrypt_package K) r2 P =
       Inr (new_salt K 12 r2 @ crypt K (new_salt K 12 r2) P) \<and>
     (new_salt K 12 r1 \<noteq> new_salt K 12 r2 \<longrightarrow>
        hash_password (bcrypt_package K) r1 P \<noteq> hash_password (bcrypt_package K) r2 P) \<and>
     verify_password (bcrypt_package K) P (new_salt K 12 r1 @ crypt K (new_salt K 12 r1) P) \<and>
     (\<forall>P2. crypt K (new_salt K 12 r1) P2 \<noteq> crypt K (new_salt K 12 r1) P \<longrightarrow>
        \<not> verify_password (bcrypt_package K) P2
            (new_salt K 12 r1 @ crypt K (new_salt K 12 r1) P)) \<and>
     (\<forall>P2. length P2 > 72 \<longrightarrow>
        \<not> verify_password (bcrypt_package K) P2
            (new_salt K 12 r1 @ crypt K (new_salt K 12 r1) P)) \<and>
     (\<forall>p h. read_salt K h = None \<longrightarrow> \<not> verify_password (bcrypt_package K) p h) \<and>
     (\<forall>B p h e. checkpw B p h = Inl e \<longrightarrow> \<not> verify_password B p h)"
proof (intro conjI allI impI)
  show h1: "hash_password (bcrypt_package K) r1 P =
       Inr (new_salt K 12 r1 @ crypt K (new_salt K 12 r1) P)"
    using short salt1 by (simp add: hash_password_package)
  show h2: "hash_password (bcrypt_package K) r2 P =
       Inr (new_salt K 12 r2 @ crypt K (new_salt K 12 r2) P)"
    using short salt2 by (simp add: hash_password_package)
  assume "new_salt K 12 r1 \<noteq> new_salt K 12 r2"
  with same_length show "hash_password (bcrypt_package K) r1 P \<noteq>
      hash_password (bcrypt_package K) r2 P"
    unfolding h1 h2 by simp
next
  show "verify_password (bcrypt_package K) P (new_salt K 12 r1 @ crypt K (new_salt K 12 r1) P)"
    using short reread by (simp add: verify_password_package)
next
  fix P2
  assume "crypt K (new_salt K 12 r1) P2 \<noteq> crypt K (new_salt K 12 r1) P"
  with reread show "\<not> verify_password (bcrypt_package K) P2
            (new_salt K 12 r1 @ crypt K (new_salt K 12 r1) P)"
    by (simp add: verify_password_package)
next
  fix P2 :: string
  assume "length P2 > 72"
  then show "\<not> verify_password (bcrypt_package K) P2
            (new_salt K 12 r1 @ crypt K (new_salt K 12 r1) P)"
    by (simp add: verify_password_package)
next
  fix p h
  assume "read_salt K h = None"
  then show "\<not> verify_password (bcrypt_package K) p h"
    by (simp add: verify_password_package)
next
  fix B :: bcrypt and p h e
  assume "checkpw B p h = Inl e"
  then show "\<not> verify_password B p h"
    by (simp add: verify_password_def)
qed

theorem password_hash_verify_witness:
  "hash_password (bcrypt_package example_core) 0 ''SecurePass123'' =
     Inr ''$2b$12$AAAAAAAAAAAAAAAAAAAAAA=SecurePass123'' \<and>
   hash_password (bcrypt_package example_core) 1 ''SecurePass123'' =
     Inr ''$2b$12$BBBBBBBBBBBBBBBBBBBBBB=SecurePass123'' \<and>
   hash_password (bcrypt_package example_core) 0 ''SecurePass123'' \<noteq>
     hash_password (bcrypt_package example_core) 1 ''SecurePass123'' \<and>
   verify_password (bcrypt_package example_core) ''SecurePass123''
     ''$2b$12$AAAAAAAAAAAAAAAAAAAAAA=SecurePass123'' \<and>
   \<not> verify_password (bcrypt_package example_core) ''WrongPassword''
     ''$2b$12$AAAAAAAAAAAAAAAAAAAAAA=SecurePass123'' \<and>
   \<not> verify_password (bcrypt_package example_core) ''SecurePass123'' ''not-a-bcrypt-hash''"
proof -
  have s0: "new_salt example_core 12 0 = ''$2b$12$AAAAAAAAAAAAAAAAAAAAAA''"
    and s1: "new_salt example_core 12 1 = ''$2b$12$BBBBBBBBBBBBBBBBBBBBBB''"
    and c: "\<And>s p. crypt example_core s p = ''='' @ p"
    by (simp_all add: example_core_def)
  have short: "length ''SecurePass123'' \<le> 72" by simp
  have salt1: "read_salt example_core (new_salt example_core 12 0) = Some (new_salt example_core 12 0)"
    by (simp add: example_core_def)
  have salt2: "read_salt example_core (new_salt example_core 12 1) = Some (new_salt example_core 12 1)"
    by (simp add: example_core_def)
  have same_length: "length (new_salt example_core 12 0) = length (new_salt example_core 12 1)"
    by (simp add: example_core_def)
  have reread: "read_salt example_core
      (new_salt example_core 12 0 @ crypt example_core (new_salt example_core 12 0) ''SecurePass123'') =
      Some (new_salt example_core 12 0)"
    by (simp add: example_core_def)
  have differ: "new_salt example_core 12 0 \<noteq> new_salt example_core 12 1"
    by (simp add: example_core_def)
  have wrong: "crypt example_core (new_salt example_core 12 0) ''WrongPassword'' \<noteq>
      crypt example_core (new_salt example_core 12 0) ''SecurePass123''"
    by (simp add: example_core_def)
  have nohash: "read_salt example_core ''not-a-bcrypt-hash'' = None"
    by (simp add: example_core_def)
  note t = password_hash_verify [OF short salt1 salt2 same_length reread]
  from t differ wrong nohash show ?thesis
    unfolding s0 s1 c by simp
qed

text \<open>
  The claim as it is stated fails at a password of 73 bytes: \<open>hash_password\<close> raises
  \<open>ValueError\<close>, so there is no hash for \<open>verify_password\<close> to accept.
\<close>

theorem password_over_72_bytes_counterexample:
  "length (replicate 73 (CHR ''a'')) = 73 \<and>
   hash_password (bcrypt_package example_core) 0 (replicate 73 (CHR ''a'')) =
     Inl (OtherException ''ValueError'')"
  by (simp add: hash_password_package)

section \<open>The constraints of the tables are kept\<close>

text \<open>
  The declared constraints hold in every database the endpoints leave behind, so
  the primary key that the isolation theorem assumes is there after any sequence
  of requests on a database that had it.
\<close>

lemma insert_task_constraints:
  "constraints db \<Longrightarrow> insert_task db t = Inr d \<Longrightarrow> constraints d"
  by (auto simp: constraints_def insert_task_def split: if_splits)

lemma insert_user_constraints:
  "constraints db \<Longrightarrow> insert_user db u = Inr d \<Longrightarrow> constraints d"
  by (auto simp: constraints_def insert_user_def split: if_splits)

lemma delete_row_constraints:
  "constraints db \<Longrightarrow> delete_row db t = Inr d \<Longrightarrow> constraints d"
  by (auto simp: constraints_def delete_row_def distinct_map_filter)

lemma update_row_constraints:
  assumes c: "constraints db" and t: "t \<in> set (tasks db)"
    and t': "Task.id' t' = Task.id' t" "Task.user_id t' = Task.user_id t"
    and u: "update_row db t' = Inr d"
  shows "constraints d"
proof -
  from u have nn: "not_null t'"
    and d: "d = db\<lparr>tasks := map (\<lambda>r. if Task.id' r = Task.id' t' then t' else r) (tasks db)\<rparr>"
    by (auto simp: update_row_def split: if_splits)
  have ids: "map Task.id' (map (\<lambda>r. if Task.id' r = Task.id' t' then t' else r) (tasks db)) =
             map Task.id' (tasks db)"
    by (induction "tasks db") auto
  from c t t' have fk: "Task.user_id t' \<in> set (map User.id' (users db))"
    by (auto simp: constraints_def)
  from c nn fk show ?thesis
    unfolding d constraints_def by (auto simp: ids simp del: map_map)
qed

lemma create_task_constraints:
  "constraints db \<Longrightarrow> create_task db uuid now1 now2 request u = (res, d) \<Longrightarrow> constraints d"
  by (auto simp: create_task_def Let_def split: if_splits sum.splits dest: insert_task_constraints)

lemma update_task_constraints:
  assumes c: "constraints db" and run: "update_task db now task_id request u = (res, d)"
  shows "constraints d"
proof (cases "find (\<lambda>t. Task.id' t = task_id \<and> Task.user_id t = u) (tasks db)")
  case None
  with run c show ?thesis by (auto simp: update_task_def split: if_splits)
next
  case (Some t)
  then have t: "t \<in> set (tasks db)" by (auto dest: find_owner)
  let ?t' = "(foldl setattr t (model_dump_exclude_unset request))\<lparr>Task.updated_at := now\<rparr>"
  have k: "Task.id' ?t' = Task.id' t" "Task.user_id ?t' = Task.user_id t"
    by (simp_all add: foldl_setattr_keeps)
  from run Some have "d = db \<or> update_row db ?t' = Inr d"
    by (auto simp: update_task_def Let_def split: if_splits sum.splits)
  with c update_row_constraints [OF c t k] show ?thesis by auto
qed

lemma delete_task_constraints:
  "constraints db \<Longrightarrow> delete_task db task_id u = (res, d) \<Longrightarrow> constraints d"
  by (auto simp: delete_task_def split: option.splits sum.splits if_splits dest: delete_row_constraints)

lemma register_constraints:
  "constraints db \<Longrightarrow>
   register B J settings utcoffset db uuid random now1 now2 request = (res, d) \<Longrightarrow> constraints d"
  by (auto simp: register_def Let_def split: option.splits sum.splits dest: insert_user_constraints)

lemma login_constraints:
  "constraints db \<Longrightarrow> login B J settings utcoffset db now request = (res, d) \<Longrightarrow> constraints d"
  by (auto simp: login_def Let_def split: option.splits sum.splits if_splits)

lemma example_db_constraints: "constraints example_db"
  by (auto simp: constraints_def example_db_def not_null_def)

end
